theory Spec2Isabelle
  imports Main "HOL-Library.Word"
begin

section \<open>Buffers, errors and the wire primitives\<close>

text \<open>
  The PSET output codec of \<^verbatim>\<open>ts_src/psetv2/output.ts\<close>. A Node \<^verbatim>\<open>Buffer\<close> is a list
  of bytes. Every \<^verbatim>\<open>throw\<close> of the source is a value \<open>Inl e\<close> of the result type.
\<close>

type_synonym byte = "8 word"
type_synonym Buffer = "byte list"

datatype error =
    DuplicateField string
  | Error string
  | RangeError

text \<open>
  \<^verbatim>\<open>class OutputDuplicateFieldError extends Error\<close> (lines 22-29): a non-empty message
  is prefixed with \<^verbatim>\<open>'Duplicated output '\<close>. \<open>Error m\<close> is \<^verbatim>\<open>new Error(m)\<close>, and
  \<open>RangeError\<close> is the error the JavaScript runtime raises for a read beyond the end of
  a Buffer or an invalid array length (the specification's malformed-stream error).
\<close>

definition OutputDuplicateFieldError :: "string \<Rightarrow> error" where
  "OutputDuplicateFieldError message =
     DuplicateField (if message \<noteq> [] then ''Duplicated output '' @ message else message)"

text \<open>\<^verbatim>\<open>buf.slice(start, end)\<close> clamps both ends to the buffer; it never raises.\<close>

definition slice :: "Buffer \<Rightarrow> nat \<Rightarrow> nat \<Rightarrow> Buffer" where
  "slice b start end' = take (end' - start) (drop start b)"

text \<open>Little-endian unsigned integers, as \<^verbatim>\<open>readUIntNLE\<close> and \<^verbatim>\<open>writeUIntNLE\<close> lay them out.\<close>

fun le_nat :: "Buffer \<Rightarrow> nat" where
  "le_nat [] = 0"
| "le_nat (b # bs) = unat b + 256 * le_nat bs"

fun le_bytes :: "nat \<Rightarrow> nat \<Rightarrow> Buffer" where
  "le_bytes 0 n = []"
| "le_bytes (Suc k) n = word_of_nat (n mod 256) # le_bytes k (n div 256)"

text \<open>
  \<^verbatim>\<open>buffer.readUInt8(off)\<close>, \<^verbatim>\<open>readUInt16LE\<close>, \<^verbatim>\<open>readUInt32LE\<close>: the \<open>k\<close> bytes at \<open>off\<close>,
  a RangeError when they are not all inside the buffer.
\<close>

definition readUIntLE :: "Buffer \<Rightarrow> nat \<Rightarrow> nat \<Rightarrow> error + nat" where
  "readUIntLE b off k =
     (if off + k \<le> length b then Inr (le_nat (slice b off (off + k))) else Inl RangeError)"

subsection \<open>The \<^verbatim>\<open>varuint\<close> collaborator (package varuint-bitcoin, Bitcoin's CompactSize)\<close>

definition MAX_SAFE_INTEGER :: nat where
  "MAX_SAFE_INTEGER = 9007199254740991"

text \<open>
  \<^verbatim>\<open>varuint.decode(buffer, offset)\<close>: the first byte selects a 1, 3, 5 or 9 byte form; the
  9 byte form is refused above \<^verbatim>\<open>Number.MAX_SAFE_INTEGER\<close>. Nothing checks that the
  shortest form was used.
\<close>

definition varuint_decode :: "Buffer \<Rightarrow> nat \<Rightarrow> error + nat" where
  "varuint_decode b off =
     (case readUIntLE b off 1 of
        Inl e \<Rightarrow> Inl e
      | Inr first \<Rightarrow>
          if first < 0xfd then Inr first
          else if first = 0xfd then readUIntLE b (off + 1) 2
          else if first = 0xfe then readUIntLE b (off + 1) 4
          else (case readUIntLE b (off + 1) 4 of
                  Inl e \<Rightarrow> Inl e
                | Inr lo \<Rightarrow>
                    (case readUIntLE b (off + 5) 4 of
                       Inl e \<Rightarrow> Inl e
                     | Inr hi \<Rightarrow>
                         if hi * 0x100000000 + lo > MAX_SAFE_INTEGER then Inl RangeError
                         else Inr (hi * 0x100000000 + lo))))"

definition varuint_encodingLength :: "nat \<Rightarrow> nat" where
  "varuint_encodingLength n =
     (if n < 0xfd then 1 else if n \<le> 0xffff then 3 else if n \<le> 0xffffffff then 5 else 9)"

text \<open>
  \<^verbatim>\<open>varuint.encode(n)\<close>. The source only ever encodes the length of a Buffer or of an array,
  which is below \<^verbatim>\<open>Number.MAX_SAFE_INTEGER\<close>, so the range check of the package cannot fire.
\<close>

definition varuint_encode :: "nat \<Rightarrow> Buffer" where
  "varuint_encode n =
     (if n < 0xfd then [word_of_nat n]
      else if n \<le> 0xffff then 0xfd # le_bytes 2 n
      else if n \<le> 0xffffffff then 0xfe # le_bytes 4 n
      else 0xff # le_bytes 8 n)"

text \<open>\<^verbatim>\<open>varuint.decode.bytes\<close>: how many bytes the last decode read.\<close>

definition varuint_decode_bytes :: "Buffer \<Rightarrow> nat \<Rightarrow> nat" where
  "varuint_decode_bytes b off =
     (case drop off b of
        [] \<Rightarrow> 0
      | first # _ \<Rightarrow>
          if first < 0xfd then 1 else if first = 0xfd then 3 else if first = 0xfe then 5 else 9)"

section \<open>Key/value pairs and the field registry\<close>

record Key =
  keyType :: byte
  keyData :: Buffer

record KeyPair =
  key :: Key
  kp_value :: Buffer

text \<open>
  Modelled from the spec: the constructor of \<^verbatim>\<open>Key\<close> (key_pair.ts is not among the
  sources). A key is a type code with optional auxiliary key data; without key data the
  data is the empty byte sequence.
\<close>

definition Key_new :: "byte \<Rightarrow> Buffer option \<Rightarrow> Key" where
  "Key_new t d = \<lparr>keyType = t, keyData = (case d of None \<Rightarrow> [] | Some kd \<Rightarrow> kd)\<rparr>"

definition KeyPair_new :: "Key \<Rightarrow> Buffer \<Rightarrow> KeyPair" where
  "KeyPair_new k v = \<lparr>key = k, kp_value = v\<rparr>"

text \<open>
  Modelled from the spec: the reader of the key/value stream (key_pair.ts and the buffer
  reader are not among the sources). Its interface is
  \<^verbatim>\<open>ReadKeyValuePair(reader) -> (KeyValuePair | EndOfRecord | Error)\<close>: a reader is the
  sequence of outcomes its successive reads give, \<open>EndOfRecord\<close> being the zero-length key
  (\<^verbatim>\<open>ErrEmptyKey\<close> in the source). Reading an exhausted reader is a read beyond the
  buffer, a RangeError.
\<close>

datatype read_result = KeyValuePair KeyPair | EndOfRecord | ReadError error

type_synonym BufferReader = "read_result list"

text \<open>
  Modelled from the spec: the field registry \<^verbatim>\<open>OutputTypes\<close> and
  \<^verbatim>\<open>OutputProprietaryTypes\<close> (fields.ts is not among the sources), with the type codes the
  PSET specification mandates, and the registered identifier \<^verbatim>\<open>magicPrefix\<close> (pset.ts),
  the ASCII bytes of "pset".
\<close>

definition REDEEM_SCRIPT :: byte where "REDEEM_SCRIPT = 0x00"
definition WITNESS_SCRIPT :: byte where "WITNESS_SCRIPT = 0x01"
definition BIP32_DERIVATION :: byte where "BIP32_DERIVATION = 0x02"
definition AMOUNT :: byte where "AMOUNT = 0x03"
definition SCRIPT :: byte where "SCRIPT = 0x04"
definition TAP_INTERNAL_KEY :: byte where "TAP_INTERNAL_KEY = 0x05"
definition TAP_TREE :: byte where "TAP_TREE = 0x06"
definition TAP_BIP32_DERIVATION :: byte where "TAP_BIP32_DERIVATION = 0x07"
definition PROPRIETARY :: byte where "PROPRIETARY = 0xfc"

definition VALUE_COMMITMENT :: byte where "VALUE_COMMITMENT = 0x01"
definition ASSET :: byte where "ASSET = 0x02"
definition ASSET_COMMITMENT :: byte where "ASSET_COMMITMENT = 0x03"
definition VALUE_RANGEPROOF :: byte where "VALUE_RANGEPROOF = 0x04"
definition ASSET_SURJECTION_PROOF :: byte where "ASSET_SURJECTION_PROOF = 0x05"
definition BLINDING_PUBKEY :: byte where "BLINDING_PUBKEY = 0x06"
definition ECDH_PUBKEY :: byte where "ECDH_PUBKEY = 0x07"
definition BLINDER_INDEX :: byte where "BLINDER_INDEX = 0x08"
definition BLIND_VALUE_PROOF :: byte where "BLIND_VALUE_PROOF = 0x09"
definition BLIND_ASSET_PROOF :: byte where "BLIND_ASSET_PROOF = 0x0a"

definition magicPrefix :: Buffer where
  "magicPrefix = [0x70, 0x73, 0x65, 0x74]"

subsection \<open>The proprietary envelope\<close>

record ProprietaryData =
  pd_identifier :: Buffer
  subType :: byte
  pd_keyData :: Buffer
  pd_value :: Buffer

text \<open>
  Modelled from the spec: \<^verbatim>\<open>ProprietaryData.fromKeyPair\<close> and
  \<^verbatim>\<open>ProprietaryData.proprietaryKey\<close> (proprietary_data.ts is not among the sources). The
  envelope inside a PROPRIETARY key is the identifier, the sub-type code and the optional
  key suffix; the identifier is a length-prefixed byte string, as every variable-length
  item of the wire format is. A key too short for its envelope is a malformed stream.
\<close>

definition ProprietaryData_fromKeyPair :: "KeyPair \<Rightarrow> error + ProprietaryData" where
  "ProprietaryData_fromKeyPair kp =
     (let kd = keyData (key kp) in
      case varuint_decode kd 0 of
        Inl e \<Rightarrow> Inl e
      | Inr n \<Rightarrow>
          (let off = varuint_decode_bytes kd 0 in
           if length kd < off + n then Inl RangeError
           else (case drop (off + n) kd of
                   [] \<Rightarrow> Inl RangeError
                 | st # suffix \<Rightarrow>
                     Inr \<lparr>pd_identifier = slice kd off (off + n), subType = st,
                          pd_keyData = suffix, pd_value = kp_value kp\<rparr>)))"

definition proprietaryKey :: "byte \<Rightarrow> Buffer option \<Rightarrow> Buffer" where
  "proprietaryKey st kd =
     varuint_encode (length magicPrefix) @ magicPrefix @ [st] @
     (case kd of None \<Rightarrow> [] | Some d \<Rightarrow> d)"

section \<open>The output record\<close>

record 'p Bip32Derivation =
  pubkey :: Buffer
  masterFingerprint :: Buffer
  path :: 'p

record 'p TapBip32Derivation = "'p Bip32Derivation" +
  leafHashes :: "Buffer list"

record TapLeaf =
  depth :: byte
  leafVersion :: byte
  leafScript :: Buffer

record TapTree =
  leaves :: "TapLeaf list"

text \<open>
  The fields of \<^verbatim>\<open>class PsetOutput\<close> (lines 267-286). A field declared with \<^verbatim>\<open>?\<close> is an
  option, \<open>None\<close> being \<^verbatim>\<open>undefined\<close>. The amount is the field \<^verbatim>\<open>value\<close> of the source,
  an unsigned 64-bit amount; the blinder index is a 32-bit index.
\<close>

record 'p PsetOutput =
  redeemScript :: "Buffer option"
  witnessScript :: "Buffer option"
  bip32Derivation :: "'p Bip32Derivation list option"
  value' :: "64 word"
  script :: "Buffer option"
  tapBip32Derivation :: "'p TapBip32Derivation list option"
  tapTree :: "TapTree option"
  tapInternalKey :: "Buffer option"
  valueCommitment :: "Buffer option"
  asset :: "Buffer option"
  assetCommitment :: "Buffer option"
  valueRangeproof :: "Buffer option"
  assetSurjectionProof :: "Buffer option"
  blindingPubkey :: "Buffer option"
  ecdhPubkey :: "Buffer option"
  blinderIndex :: "32 word option"
  blindValueProof :: "Buffer option"
  blindAssetProof :: "Buffer option"
  proprietaryData :: "ProprietaryData list option"
  unknowns :: "KeyPair list option"

text \<open>
  The constructor (lines 288-292): \<^verbatim>\<open>value || 0\<close>, \<^verbatim>\<open>asset || Buffer.from([])\<close> (a Buffer
  is always truthy), \<^verbatim>\<open>script\<close> as given; every other field stays undefined.
\<close>

definition PsetOutput_new ::
  "64 word option \<Rightarrow> Buffer option \<Rightarrow> Buffer option \<Rightarrow> 'p PsetOutput" where
  "PsetOutput_new v a s =
     \<lparr>redeemScript = None, witnessScript = None, bip32Derivation = None,
      value' = (case v of None \<Rightarrow> 0 | Some n \<Rightarrow> n),
      script = s, tapBip32Derivation = None, tapTree = None, tapInternalKey = None,
      valueCommitment = None,
      asset = (case a of None \<Rightarrow> Some [] | Some b \<Rightarrow> Some b),
      assetCommitment = None, valueRangeproof = None, assetSurjectionProof = None,
      blindingPubkey = None, ecdhPubkey = None, blinderIndex = None,
      blindValueProof = None, blindAssetProof = None, proprietaryData = None,
      unknowns = None\<rparr>"

section \<open>The blinding invariant checker\<close>

text \<open>
  \<^verbatim>\<open>buf && buf.length > 0\<close> is a JavaScript value of three kinds: \<^verbatim>\<open>undefined\<close> when the
  field is unset (\<open>None\<close>), otherwise the boolean \<^verbatim>\<open>buf.length > 0\<close>. The conditions of
  the source use it both for its truthiness and under the strict comparison \<^verbatim>\<open>!==\<close>,
  which tells \<^verbatim>\<open>undefined\<close> from \<^verbatim>\<open>false\<close>.
\<close>

definition bufSet :: "Buffer option \<Rightarrow> bool option" where
  "bufSet b = (case b of None \<Rightarrow> None | Some v \<Rightarrow> Some (length v > 0))"

definition truthy :: "bool option \<Rightarrow> bool" where
  "truthy t = (t = Some True)"

definition isPartiallyBlinded :: "'p PsetOutput \<Rightarrow> bool" where
  "isPartiallyBlinded out =
     (truthy (bufSet (valueCommitment out)) \<or>
      truthy (bufSet (assetCommitment out)) \<or>
      truthy (bufSet (valueRangeproof out)) \<or>
      truthy (bufSet (assetSurjectionProof out)) \<or>
      truthy (bufSet (ecdhPubkey out)))"

definition isFullyBlinded :: "'p PsetOutput \<Rightarrow> bool" where
  "isFullyBlinded out =
     (truthy (bufSet (valueCommitment out)) \<and>
      truthy (bufSet (assetCommitment out)) \<and>
      truthy (bufSet (valueRangeproof out)) \<and>
      (case assetSurjectionProof out of None \<Rightarrow> False | Some v \<Rightarrow> length v > 0) \<and>
      truthy (bufSet (ecdhPubkey out)))"

definition needsBlinding :: "'p PsetOutput \<Rightarrow> bool" where
  "needsBlinding out = truthy (bufSet (blindingPubkey out))"

definition sanityCheck :: "'p PsetOutput \<Rightarrow> error + 'p PsetOutput" where
  "sanityCheck out =
     (let valueCommitSet = bufSet (valueCommitment out);
          blindValueProofSet = bufSet (blindValueProof out)
      in
      if value' out > 0 \<and> valueCommitSet \<noteq> blindValueProofSet
      then Inl (Error ''Missing output value commitment or blind proof'')
      else
       (let assetCommitSet = bufSet (assetCommitment out);
            blindAssetProofSet = bufSet (blindAssetProof out)
        in
        if \<not> truthy assetCommitSet \<and>
           (case asset out of None \<Rightarrow> True | Some a \<Rightarrow> length a = 0)
        then Inl (Error ''Missing output asset'')
        else if truthy (bufSet (asset out)) \<and> assetCommitSet \<noteq> blindAssetProofSet
        then Inl (Error ''Missing output asset commitment or blind proof'')
        else if isPartiallyBlinded out \<and> \<not> isFullyBlinded out
        then Inl (Error
          ''Output is partially blinded while it must be either unblinded or fully blinded'')
        else if isFullyBlinded out \<and>
                (case blinderIndex out of None \<Rightarrow> False | Some bi \<Rightarrow> bi > 0)
        then Inl (Error ''Blinder index must be unset for fully blinded output'')
        else Inr out))"

section \<open>The output decoder\<close>

text \<open>
  The taproot tree loop (lines 124-137). The two bytes \<^verbatim>\<open>kp.value[_offset++]\<close> are read
  without a bounds check (\<^verbatim>\<open>undefined\<close> when out of range), but \<^verbatim>\<open>varuint.decode\<close> at
  the following offset raises whenever one of them was out of range, so both are inside
  the buffer in every leaf that is pushed. The script is a \<^verbatim>\<open>slice\<close>, which clamps.
\<close>

function tapTree_loop :: "Buffer \<Rightarrow> nat \<Rightarrow> TapLeaf list \<Rightarrow> error + TapLeaf list" where
  "tapTree_loop v off lvs =
     (if off < length v then
        (case varuint_decode v (off + 2) of
           Inl e \<Rightarrow> Inl e
         | Inr scriptLen \<Rightarrow>
             tapTree_loop v (off + 2 + varuint_encodingLength scriptLen + scriptLen)
               (lvs @ [\<lparr>depth = v ! off, leafVersion = v ! (off + 1),
                        leafScript = slice v (off + 2 + varuint_encodingLength scriptLen)
                          (off + 2 + varuint_encodingLength scriptLen + scriptLen)\<rparr>]))
      else Inr lvs)"
  by pat_completeness auto
termination
  by (relation "measure (\<lambda>(v, off, lvs). length v - off)") auto

declare tapTree_loop.simps [simp del]

text \<open>The inner switch on the sub-type of a proprietary pair (lines 151-255).\<close>

definition fromBuffer_proprietary ::
  "'p PsetOutput \<Rightarrow> KeyPair \<Rightarrow> ProprietaryData \<Rightarrow> error + 'p PsetOutput" where
  "fromBuffer_proprietary out kp data =
     (if pd_identifier data = magicPrefix then
        (if subType data = VALUE_COMMITMENT then
           (if truthy (bufSet (valueCommitment out))
            then Inl (OutputDuplicateFieldError ''value commitment'')
            else if length (kp_value kp) \<noteq> 33
            then Inl (Error ''Invalid output value commitment length'')
            else Inr (out\<lparr>valueCommitment := Some (kp_value kp)\<rparr>))
         else if subType data = ASSET then
           (if truthy (bufSet (asset out))
            then Inl (OutputDuplicateFieldError ''asset'')
            else if length (kp_value kp) \<noteq> 32
            then Inl (Error ''Invalid output asset length'')
            else Inr (out\<lparr>asset := Some (kp_value kp)\<rparr>))
         else if subType data = ASSET_COMMITMENT then
           (if truthy (bufSet (assetCommitment out))
            then Inl (OutputDuplicateFieldError ''asset commitment'')
            else if length (kp_value kp) \<noteq> 33
            then Inl (Error ''Invalid output asset commitment length'')
            else Inr (out\<lparr>assetCommitment := Some (kp_value kp)\<rparr>))
         else if subType data = VALUE_RANGEPROOF then
           (if truthy (bufSet (valueRangeproof out))
            then Inl (OutputDuplicateFieldError ''value range proof'')
            else Inr (out\<lparr>valueRangeproof := Some (kp_value kp)\<rparr>))
         else if subType data = ASSET_SURJECTION_PROOF then
           (if truthy (bufSet (assetSurjectionProof out))
            then Inl (OutputDuplicateFieldError ''asset surjection proof'')
            else Inr (out\<lparr>assetSurjectionProof := Some (kp_value kp)\<rparr>))
         else if subType data = BLINDING_PUBKEY then
           (if truthy (bufSet (blindingPubkey out))
            then Inl (OutputDuplicateFieldError ''blinding pubkey'')
            else if length (kp_value kp) \<noteq> 33
            then Inl (Error ''Invalid output blinding pubkey length'')
            else Inr (out\<lparr>blindingPubkey := Some (kp_value kp)\<rparr>))
         else if subType data = ECDH_PUBKEY then
           (if truthy (bufSet (ecdhPubkey out))
            then Inl (OutputDuplicateFieldError ''ecdh pubkey'')
            else if length (kp_value kp) \<noteq> 33
            then Inl (Error ''Invalid output ecdh pubkey length'')
            else Inr (out\<lparr>ecdhPubkey := Some (kp_value kp)\<rparr>))
         else if subType data = BLINDER_INDEX then
           (if blinderIndex out \<noteq> None
            then Inl (OutputDuplicateFieldError ''blinder index'')
            else if length (kp_value kp) \<noteq> 4
            then Inl (Error ''Invalid output blinder index length'')
            else Inr (out\<lparr>blinderIndex := Some (word_of_nat (le_nat (kp_value kp)))\<rparr>))
         else if subType data = BLIND_VALUE_PROOF then
           (if truthy (bufSet (blindValueProof out))
            then Inl (OutputDuplicateFieldError ''blind value proof'')
            else Inr (out\<lparr>blindValueProof := Some (kp_value kp)\<rparr>))
         else if subType data = BLIND_ASSET_PROOF then
           (if truthy (bufSet (blindAssetProof out))
            then Inl (OutputDuplicateFieldError ''blind asset proof'')
            else Inr (out\<lparr>blindAssetProof := Some (kp_value kp)\<rparr>))
         else Inr (out\<lparr>proprietaryData :=
                Some ((case proprietaryData out of None \<Rightarrow> [] | Some ds \<Rightarrow> ds) @ [data])\<rparr>))
      else Inr out)"

text \<open>
  The body of the decoding loop for one key/value pair: the outer switch on the key type
  (lines 46-263). The BIP32 derivation codec \<^verbatim>\<open>decodeBip32Derivation\<close> (bip32.ts is not
  among the sources, and the specification fixes no layout for it) is the parameter
  \<open>dec\<close>; the type \<open>'p\<close> is that of a derivation path. \<^verbatim>\<open>readUInt64LE\<close> reads the amount
  as the specification lays it out, 8 bytes little-endian. \<^verbatim>\<open>new Array(nHashes)\<close> raises
  a RangeError above \<open>2^32 - 1\<close>.
\<close>

definition fromBuffer_step ::
  "(Buffer \<Rightarrow> error + Buffer \<times> 'p) \<Rightarrow> 'p PsetOutput \<Rightarrow> KeyPair \<Rightarrow> error + 'p PsetOutput" where
  "fromBuffer_step dec out kp =
     (if keyType (key kp) = REDEEM_SCRIPT then
        (if truthy (bufSet (redeemScript out))
         then Inl (OutputDuplicateFieldError ''redeem script'')
         else Inr (out\<lparr>redeemScript := Some (kp_value kp)\<rparr>))
      else if keyType (key kp) = WITNESS_SCRIPT then
        (if truthy (bufSet (witnessScript out))
         then Inl (OutputDuplicateFieldError ''witness script'')
         else Inr (out\<lparr>witnessScript := Some (kp_value kp)\<rparr>))
      else if keyType (key kp) = BIP32_DERIVATION then
        (if length (keyData (key kp)) \<noteq> 33
         then Inl (Error ''Invalid output bip32 pubkey length'')
         else if find (\<lambda>d. pubkey d = keyData (key kp))
                   (case bip32Derivation out of None \<Rightarrow> [] | Some ds \<Rightarrow> ds) \<noteq> None
         then Inl (OutputDuplicateFieldError ''bip32 derivation'')
         else (case dec (kp_value kp) of
                 Inl e \<Rightarrow> Inl e
               | Inr (mf, p) \<Rightarrow>
                   Inr (out\<lparr>bip32Derivation :=
                     Some ((case bip32Derivation out of None \<Rightarrow> [] | Some ds \<Rightarrow> ds) @
                           [\<lparr>pubkey = keyData (key kp), masterFingerprint = mf, path = p\<rparr>])\<rparr>)))
      else if keyType (key kp) = AMOUNT then
        (if value' out > 0
         then Inl (OutputDuplicateFieldError ''value'')
         else if length (kp_value kp) \<noteq> 8
         then Inl (Error ''Invalid output amount length'')
         else Inr (out\<lparr>value' := word_of_nat (le_nat (kp_value kp))\<rparr>))
      else if keyType (key kp) = SCRIPT then
        (if truthy (bufSet (script out))
         then Inl (OutputDuplicateFieldError ''script'')
         else Inr (out\<lparr>script := Some (kp_value kp)\<rparr>))
      else if keyType (key kp) = TAP_BIP32_DERIVATION then
        (if length (keyData (key kp)) \<noteq> 33
         then Inl (Error ''Invalid output bip32 derivation pubkey length'')
         else if find (\<lambda>d. pubkey d = keyData (key kp))
                   (case tapBip32Derivation out of None \<Rightarrow> [] | Some ds \<Rightarrow> ds) \<noteq> None
         then Inl (OutputDuplicateFieldError ''taproot bip32 derivation'')
         else (case varuint_decode (kp_value kp) 0 of
                 Inl e \<Rightarrow> Inl e
               | Inr nHashes \<Rightarrow>
                   (case dec (drop (varuint_encodingLength nHashes + nHashes * 32) (kp_value kp)) of
                      Inl e \<Rightarrow> Inl e
                    | Inr (mf, p) \<Rightarrow>
                        if nHashes > 0xffffffff then Inl RangeError
                        else Inr (out\<lparr>tapBip32Derivation :=
                          Some ((case tapBip32Derivation out of None \<Rightarrow> [] | Some ds \<Rightarrow> ds) @
                                [\<lparr>pubkey = keyData (key kp), masterFingerprint = mf, path = p,
                                  leafHashes =
                                    map (\<lambda>i. slice (kp_value kp)
                                               (varuint_encodingLength nHashes + 32 * i)
                                               (varuint_encodingLength nHashes + 32 * i + 32))
                                      [0..<nHashes]\<rparr>])\<rparr>))))
      else if keyType (key kp) = TAP_TREE then
        (if tapTree out \<noteq> None
         then Inl (OutputDuplicateFieldError ''taproot tree'')
         else (case tapTree_loop (kp_value kp) 0 [] of
                 Inl e \<Rightarrow> Inl e
               | Inr lvs \<Rightarrow> Inr (out\<lparr>tapTree := Some \<lparr>leaves = lvs\<rparr>\<rparr>)))
      else if keyType (key kp) = TAP_INTERNAL_KEY then
        (if truthy (bufSet (tapInternalKey out))
         then Inl (OutputDuplicateFieldError ''taproot internal key'')
         else if length (kp_value kp) \<noteq> 32
         then Inl (Error ''Invalid output taproot internal key length'')
         else Inr (out\<lparr>tapInternalKey := Some (kp_value kp)\<rparr>))
      else if keyType (key kp) = PROPRIETARY then
        (case ProprietaryData_fromKeyPair kp of
           Inl e \<Rightarrow> Inl e
         | Inr data \<Rightarrow> fromBuffer_proprietary out kp data)
      else Inr (out\<lparr>unknowns :=
             Some ((case unknowns out of None \<Rightarrow> [] | Some us \<Rightarrow> us) @ [kp])\<rparr>))"

text \<open>
  \<^verbatim>\<open>PsetOutput.fromBuffer\<close> (lines 32-265): read pairs until the zero-length key, then run
  the invariant checker; any other failure of the reader, and the first error of a pair,
  ends the decoding.
\<close>

fun fromBuffer_loop ::
  "(Buffer \<Rightarrow> error + Buffer \<times> 'p) \<Rightarrow> 'p PsetOutput \<Rightarrow> BufferReader \<Rightarrow> error + 'p PsetOutput" where
  "fromBuffer_loop dec out [] = Inl RangeError"
| "fromBuffer_loop dec out (EndOfRecord # r) = sanityCheck out"
| "fromBuffer_loop dec out (ReadError e # r) = Inl e"
| "fromBuffer_loop dec out (KeyValuePair kp # r) =
     (case fromBuffer_step dec out kp of
        Inl e \<Rightarrow> Inl e
      | Inr out' \<Rightarrow> fromBuffer_loop dec out' r)"

definition fromBuffer ::
  "(Buffer \<Rightarrow> error + Buffer \<times> 'p) \<Rightarrow> BufferReader \<Rightarrow> error + 'p PsetOutput" where
  "fromBuffer dec r = fromBuffer_loop dec (PsetOutput_new None None None) r"

section \<open>The output encoder\<close>

text \<open>
  \<^verbatim>\<open>if (buf && buf.length > 0) keyPairs.push(new KeyPair(key, buf))\<close>, the guard of every
  optional byte field in \<^verbatim>\<open>getKeyPairs\<close>.
\<close>

definition pushIfSet :: "Key \<Rightarrow> Buffer option \<Rightarrow> KeyPair list" where
  "pushIfSet k b =
     (case b of None \<Rightarrow> [] | Some v \<Rightarrow> if length v > 0 then [KeyPair_new k v] else [])"

text \<open>The value of the TAP_TREE pair (lines 417-424).\<close>

definition encodeTapLeaf :: "TapLeaf \<Rightarrow> Buffer" where
  "encodeTapLeaf l =
     [depth l, leafVersion l] @ varuint_encode (length (leafScript l)) @ leafScript l"

definition encodeTapTree :: "TapTree \<Rightarrow> Buffer" where
  "encodeTapTree t = concat (map encodeTapLeaf (leaves t))"

text \<open>
  \<^verbatim>\<open>getKeyPairs\<close> (lines 377-542), in the order of the source. \<open>enc\<close> is the collaborator
  \<^verbatim>\<open>encodeBIP32Derivation\<close>. \<^verbatim>\<open>writeUInt64LE\<close> and \<^verbatim>\<open>writeUInt32LE\<close> write 8 and 4 bytes,
  little-endian. The last statement, \<^verbatim>\<open>keyPairs.concat(this.unknowns || [])\<close>, builds a
  new array and drops it: \<^verbatim>\<open>concat\<close> does not change \<^verbatim>\<open>keyPairs\<close>, which is returned.
\<close>

definition getKeyPairs :: "(Buffer \<Rightarrow> 'p \<Rightarrow> Buffer) \<Rightarrow> 'p PsetOutput \<Rightarrow> KeyPair list" where
  "getKeyPairs enc out =
     (let keyPairs =
        pushIfSet (Key_new REDEEM_SCRIPT None) (redeemScript out) @
        pushIfSet (Key_new WITNESS_SCRIPT None) (witnessScript out) @
        (case bip32Derivation out of
           None \<Rightarrow> []
         | Some ds \<Rightarrow>
             map (\<lambda>d. KeyPair_new (Key_new BIP32_DERIVATION (Some (pubkey d)))
                        (enc (masterFingerprint d) (path d))) ds) @
        (case tapBip32Derivation out of
           None \<Rightarrow> []
         | Some ds \<Rightarrow>
             map (\<lambda>d. KeyPair_new (Key_new TAP_BIP32_DERIVATION (Some (pubkey d)))
                        (varuint_encode (length (leafHashes d)) @ concat (leafHashes d) @
                         enc (masterFingerprint d) (path d))) ds) @
        (case tapTree out of
           None \<Rightarrow> []
         | Some t \<Rightarrow> [KeyPair_new (Key_new TAP_TREE None) (encodeTapTree t)]) @
        pushIfSet (Key_new TAP_INTERNAL_KEY None) (tapInternalKey out) @
        [KeyPair_new (Key_new AMOUNT None) (le_bytes 8 (unat (value' out)))] @
        [KeyPair_new (Key_new SCRIPT None) (case script out of None \<Rightarrow> [] | Some s \<Rightarrow> s)] @
        pushIfSet (Key_new PROPRIETARY (Some (proprietaryKey VALUE_COMMITMENT None)))
          (valueCommitment out) @
        pushIfSet (Key_new PROPRIETARY (Some (proprietaryKey ASSET_COMMITMENT None)))
          (assetCommitment out) @
        pushIfSet (Key_new PROPRIETARY (Some (proprietaryKey ASSET None))) (asset out) @
        pushIfSet (Key_new PROPRIETARY (Some (proprietaryKey VALUE_RANGEPROOF None)))
          (valueRangeproof out) @
        pushIfSet (Key_new PROPRIETARY (Some (proprietaryKey ASSET_SURJECTION_PROOF None)))
          (assetSurjectionProof out) @
        pushIfSet (Key_new PROPRIETARY (Some (proprietaryKey BLINDING_PUBKEY None)))
          (blindingPubkey out) @
        pushIfSet (Key_new PROPRIETARY (Some (proprietaryKey ECDH_PUBKEY None)))
          (ecdhPubkey out) @
        [KeyPair_new (Key_new PROPRIETARY (Some (proprietaryKey BLINDER_INDEX None)))
           (le_bytes 4 (unat (case blinderIndex out of
                                None \<Rightarrow> 0
                              | Some bi \<Rightarrow> if bi > 0 then bi else 0)))] @
        pushIfSet (Key_new PROPRIETARY (Some (proprietaryKey BLIND_VALUE_PROOF None)))
          (blindValueProof out) @
        pushIfSet (Key_new PROPRIETARY (Some (proprietaryKey BLIND_ASSET_PROOF None)))
          (blindAssetProof out) @
        (case proprietaryData out of
           None \<Rightarrow> []
         | Some ds \<Rightarrow>
             map (\<lambda>data. KeyPair_new
                           (Key_new PROPRIETARY
                              (Some (proprietaryKey (subType data) (Some (pd_keyData data)))))
                           (pd_value data)) ds);
          discarded = keyPairs @ (case unknowns out of None \<Rightarrow> [] | Some us \<Rightarrow> us)
      in keyPairs)"

text \<open>
  \<^verbatim>\<open>toBuffer\<close> (lines 365-375): the pairs of \<^verbatim>\<open>getKeyPairs\<close>, each written by the
  collaborator \<^verbatim>\<open>KeyPair.toBuffer\<close> (the parameter \<open>write\<close>), one after the other.
\<close>

definition toBuffer ::
  "(KeyPair \<Rightarrow> Buffer) \<Rightarrow> (Buffer \<Rightarrow> 'p \<Rightarrow> Buffer) \<Rightarrow> 'p PsetOutput \<Rightarrow> Buffer" where
  "toBuffer write enc out = concat (map write (getKeyPairs enc out))"

text \<open>
  The reader positioned on what the encoder wrote: reading back each written pair, then
  the zero-length key that closes the record.
\<close>

definition readerOf :: "KeyPair list \<Rightarrow> BufferReader" where
  "readerOf kps = map KeyValuePair kps @ [EndOfRecord]"

section \<open>Notions of the specification and the examples\<close>

text \<open>
  A byte field is present when it is set to a non-empty byte sequence; unset and empty
  both count as absent.
\<close>

definition present :: "Buffer option \<Rightarrow> bool" where
  "present b = (case b of None \<Rightarrow> False | Some v \<Rightarrow> v \<noteq> [])"

text \<open>
  An instance of the BIP32 derivation codec for the examples: the fingerprint of 4 bytes,
  then the bytes of the path.
\<close>

definition exampleDecodeBip32 :: "Buffer \<Rightarrow> error + Buffer \<times> Buffer" where
  "exampleDecodeBip32 b =
     (if length b < 4 then Inl (Error ''Invalid BIP32 derivation format'')
      else Inr (take 4 b, drop 4 b))"

definition exampleEncodeBip32 :: "Buffer \<Rightarrow> Buffer \<Rightarrow> Buffer" where
  "exampleEncodeBip32 mf p = mf @ p"

text \<open>An asset identifier of 32 bytes, and commitments and keys of 33 bytes.\<close>

definition exampleAsset :: Buffer where
  "exampleAsset = replicate 31 0 @ [1]"

definition example33 :: "byte \<Rightarrow> Buffer" where
  "example33 b = b # replicate 32 7"

text \<open>The pair that carries a named proprietary field on the wire.\<close>

definition proprietaryPair :: "byte \<Rightarrow> Buffer \<Rightarrow> KeyPair" where
  "proprietaryPair st v = KeyPair_new (Key_new PROPRIETARY (Some (proprietaryKey st None))) v"

text \<open>
  A fully blinded record, as the decoder builds it from the five blinding fields, with a
  given blinder index; and the pairs of the five fields.
\<close>

definition fullyBlindedPairs :: "KeyPair list" where
  "fullyBlindedPairs =
     [proprietaryPair VALUE_COMMITMENT (example33 8),
      proprietaryPair ASSET_COMMITMENT (example33 10),
      proprietaryPair VALUE_RANGEPROOF [1, 2, 3],
      proprietaryPair ASSET_SURJECTION_PROOF [4, 5],
      proprietaryPair ECDH_PUBKEY (example33 2)]"

definition fullyBlinded :: "32 word option \<Rightarrow> Buffer PsetOutput" where
  "fullyBlinded bi =
     (PsetOutput_new None None None)
       \<lparr>valueCommitment := Some (example33 8), assetCommitment := Some (example33 10),
        valueRangeproof := Some [1, 2, 3], assetSurjectionProof := Some [4, 5],
        ecdhPubkey := Some (example33 2), blinderIndex := bi\<rparr>"

section \<open>The decoding step by kind of pair\<close>

text \<open>
  The named fields that may occur once on the wire, and the kinds of pair the two switches
  of the decoder tell apart: a named field, a BIP32 derivation, a taproot derivation, a
  proprietary pair under the registered identifier with an unrecognised sub-type, one
  under another identifier, a PROPRIETARY key with no readable envelope, and an unknown
  key type. \<open>classify\<close> follows the order of the cases in the source.
\<close>

datatype field =
    F_redeemScript | F_witnessScript | F_value | F_script | F_tapTree | F_tapInternalKey
  | F_valueCommitment | F_asset | F_assetCommitment | F_valueRangeproof
  | F_assetSurjectionProof | F_blindingPubkey | F_ecdhPubkey | F_blinderIndex
  | F_blindValueProof | F_blindAssetProof

datatype kind =
    K_field field
  | K_bip32
  | K_tapBip32
  | K_other ProprietaryData
  | K_foreign
  | K_malformed error
  | K_unknown

definition classifyProprietary :: "ProprietaryData \<Rightarrow> kind" where
  "classifyProprietary data =
     (if pd_identifier data = magicPrefix then
        (if subType data = VALUE_COMMITMENT then K_field F_valueCommitment
         else if subType data = ASSET then K_field F_asset
         else if subType data = ASSET_COMMITMENT then K_field F_assetCommitment
         else if subType data = VALUE_RANGEPROOF then K_field F_valueRangeproof
         else if subType data = ASSET_SURJECTION_PROOF then K_field F_assetSurjectionProof
         else if subType data = BLINDING_PUBKEY then K_field F_blindingPubkey
         else if subType data = ECDH_PUBKEY then K_field F_ecdhPubkey
         else if subType data = BLINDER_INDEX then K_field F_blinderIndex
         else if subType data = BLIND_VALUE_PROOF then K_field F_blindValueProof
         else if subType data = BLIND_ASSET_PROOF then K_field F_blindAssetProof
         else K_other data)
      else K_foreign)"

definition classify :: "KeyPair \<Rightarrow> kind" where
  "classify kp =
     (if keyType (key kp) = REDEEM_SCRIPT then K_field F_redeemScript
      else if keyType (key kp) = WITNESS_SCRIPT then K_field F_witnessScript
      else if keyType (key kp) = BIP32_DERIVATION then K_bip32
      else if keyType (key kp) = AMOUNT then K_field F_value
      else if keyType (key kp) = SCRIPT then K_field F_script
      else if keyType (key kp) = TAP_BIP32_DERIVATION then K_tapBip32
      else if keyType (key kp) = TAP_TREE then K_field F_tapTree
      else if keyType (key kp) = TAP_INTERNAL_KEY then K_field F_tapInternalKey
      else if keyType (key kp) = PROPRIETARY then
        (case ProprietaryData_fromKeyPair kp of
           Inl e \<Rightarrow> K_malformed e
         | Inr data \<Rightarrow> classifyProprietary data)
      else K_unknown)"

text \<open>
  For each named field: the test the decoder makes before it assigns the field (\<open>isSet\<close>),
  the name in its duplicate error, the error of its length check or of its value decoder,
  and the assignment. \<open>assignField\<close> puts them in the order of the source: duplicate
  test, length check, assignment.
\<close>

fun isSet :: "field \<Rightarrow> 'p PsetOutput \<Rightarrow> bool" where
  "isSet F_redeemScript out = present (redeemScript out)"
| "isSet F_witnessScript out = present (witnessScript out)"
| "isSet F_value out = (0 < value' out)"
| "isSet F_script out = present (script out)"
| "isSet F_tapTree out = (tapTree out \<noteq> None)"
| "isSet F_tapInternalKey out = present (tapInternalKey out)"
| "isSet F_valueCommitment out = present (valueCommitment out)"
| "isSet F_asset out = present (asset out)"
| "isSet F_assetCommitment out = present (assetCommitment out)"
| "isSet F_valueRangeproof out = present (valueRangeproof out)"
| "isSet F_assetSurjectionProof out = present (assetSurjectionProof out)"
| "isSet F_blindingPubkey out = present (blindingPubkey out)"
| "isSet F_ecdhPubkey out = present (ecdhPubkey out)"
| "isSet F_blinderIndex out = (blinderIndex out \<noteq> None)"
| "isSet F_blindValueProof out = present (blindValueProof out)"
| "isSet F_blindAssetProof out = present (blindAssetProof out)"

fun fieldName :: "field \<Rightarrow> string" where
  "fieldName F_redeemScript = ''redeem script''"
| "fieldName F_witnessScript = ''witness script''"
| "fieldName F_value = ''value''"
| "fieldName F_script = ''script''"
| "fieldName F_tapTree = ''taproot tree''"
| "fieldName F_tapInternalKey = ''taproot internal key''"
| "fieldName F_valueCommitment = ''value commitment''"
| "fieldName F_asset = ''asset''"
| "fieldName F_assetCommitment = ''asset commitment''"
| "fieldName F_valueRangeproof = ''value range proof''"
| "fieldName F_assetSurjectionProof = ''asset surjection proof''"
| "fieldName F_blindingPubkey = ''blinding pubkey''"
| "fieldName F_ecdhPubkey = ''ecdh pubkey''"
| "fieldName F_blinderIndex = ''blinder index''"
| "fieldName F_blindValueProof = ''blind value proof''"
| "fieldName F_blindAssetProof = ''blind asset proof''"

fun lengthError :: "field \<Rightarrow> KeyPair \<Rightarrow> error option" where
  "lengthError F_value kp =
     (if length (kp_value kp) \<noteq> 8 then Some (Error ''Invalid output amount length'') else None)"
| "lengthError F_tapTree kp =
     (case tapTree_loop (kp_value kp) 0 [] of Inl e \<Rightarrow> Some e | Inr lvs \<Rightarrow> None)"
| "lengthError F_tapInternalKey kp =
     (if length (kp_value kp) \<noteq> 32
      then Some (Error ''Invalid output taproot internal key length'') else None)"
| "lengthError F_valueCommitment kp =
     (if length (kp_value kp) \<noteq> 33
      then Some (Error ''Invalid output value commitment length'') else None)"
| "lengthError F_asset kp =
     (if length (kp_value kp) \<noteq> 32 then Some (Error ''Invalid output asset length'') else None)"
| "lengthError F_assetCommitment kp =
     (if length (kp_value kp) \<noteq> 33
      then Some (Error ''Invalid output asset commitment length'') else None)"
| "lengthError F_blindingPubkey kp =
     (if length (kp_value kp) \<noteq> 33
      then Some (Error ''Invalid output blinding pubkey length'') else None)"
| "lengthError F_ecdhPubkey kp =
     (if length (kp_value kp) \<noteq> 33
      then Some (Error ''Invalid output ecdh pubkey length'') else None)"
| "lengthError F_blinderIndex kp =
     (if length (kp_value kp) \<noteq> 4
      then Some (Error ''Invalid output blinder index length'') else None)"
| "lengthError f kp = None"

fun assign :: "field \<Rightarrow> KeyPair \<Rightarrow> 'p PsetOutput \<Rightarrow> 'p PsetOutput" where
  "assign F_redeemScript kp out = out\<lparr>redeemScript := Some (kp_value kp)\<rparr>"
| "assign F_witnessScript kp out = out\<lparr>witnessScript := Some (kp_value kp)\<rparr>"
| "assign F_value kp out = out\<lparr>value' := word_of_nat (le_nat (kp_value kp))\<rparr>"
| "assign F_script kp out = out\<lparr>script := Some (kp_value kp)\<rparr>"
| "assign F_tapTree kp out =
     (case tapTree_loop (kp_value kp) 0 [] of
        Inl e \<Rightarrow> out
      | Inr lvs \<Rightarrow> out\<lparr>tapTree := Some \<lparr>leaves = lvs\<rparr>\<rparr>)"
| "assign F_tapInternalKey kp out = out\<lparr>tapInternalKey := Some (kp_value kp)\<rparr>"
| "assign F_valueCommitment kp out = out\<lparr>valueCommitment := Some (kp_value kp)\<rparr>"
| "assign F_asset kp out = out\<lparr>asset := Some (kp_value kp)\<rparr>"
| "assign F_assetCommitment kp out = out\<lparr>assetCommitment := Some (kp_value kp)\<rparr>"
| "assign F_valueRangeproof kp out = out\<lparr>valueRangeproof := Some (kp_value kp)\<rparr>"
| "assign F_assetSurjectionProof kp out = out\<lparr>assetSurjectionProof := Some (kp_value kp)\<rparr>"
| "assign F_blindingPubkey kp out = out\<lparr>blindingPubkey := Some (kp_value kp)\<rparr>"
| "assign F_ecdhPubkey kp out = out\<lparr>ecdhPubkey := Some (kp_value kp)\<rparr>"
| "assign F_blinderIndex kp out = out\<lparr>blinderIndex := Some (word_of_nat (le_nat (kp_value kp)))\<rparr>"
| "assign F_blindValueProof kp out = out\<lparr>blindValueProof := Some (kp_value kp)\<rparr>"
| "assign F_blindAssetProof kp out = out\<lparr>blindAssetProof := Some (kp_value kp)\<rparr>"

definition assignField ::
  "field \<Rightarrow> 'p PsetOutput \<Rightarrow> KeyPair \<Rightarrow> error + 'p PsetOutput" where
  "assignField f out kp =
     (if isSet f out then Inl (OutputDuplicateFieldError (fieldName f))
      else (case lengthError f kp of Some e \<Rightarrow> Inl e | None \<Rightarrow> Inr (assign f kp out)))"

text \<open>The decoding step of a pair of a given kind; it is \<open>fromBuffer_step\<close> (lemma \<open>step_classify\<close>).\<close>

fun stepOf ::
  "(Buffer \<Rightarrow> error + Buffer \<times> 'p) \<Rightarrow> 'p PsetOutput \<Rightarrow> KeyPair \<Rightarrow> kind \<Rightarrow> error + 'p PsetOutput" where
  "stepOf dec out kp (K_field f) = assignField f out kp"
| "stepOf dec out kp K_bip32 =
     (if length (keyData (key kp)) \<noteq> 33
      then Inl (Error ''Invalid output bip32 pubkey length'')
      else if find (\<lambda>d. pubkey d = keyData (key kp))
                (case bip32Derivation out of None \<Rightarrow> [] | Some ds \<Rightarrow> ds) \<noteq> None
      then Inl (OutputDuplicateFieldError ''bip32 derivation'')
      else (case dec (kp_value kp) of
              Inl e \<Rightarrow> Inl e
            | Inr (mf, p) \<Rightarrow>
                Inr (out\<lparr>bip32Derivation :=
                  Some ((case bip32Derivation out of None \<Rightarrow> [] | Some ds \<Rightarrow> ds) @
                        [\<lparr>pubkey = keyData (key kp), masterFingerprint = mf, path = p\<rparr>])\<rparr>)))"
| "stepOf dec out kp K_tapBip32 =
     (if length (keyData (key kp)) \<noteq> 33
      then Inl (Error ''Invalid output bip32 derivation pubkey length'')
      else if find (\<lambda>d. pubkey d = keyData (key kp))
                (case tapBip32Derivation out of None \<Rightarrow> [] | Some ds \<Rightarrow> ds) \<noteq> None
      then Inl (OutputDuplicateFieldError ''taproot bip32 derivation'')
      else (case varuint_decode (kp_value kp) 0 of
              Inl e \<Rightarrow> Inl e
            | Inr nHashes \<Rightarrow>
                (case dec (drop (varuint_encodingLength nHashes + nHashes * 32) (kp_value kp)) of
                   Inl e \<Rightarrow> Inl e
                 | Inr (mf, p) \<Rightarrow>
                     if nHashes > 0xffffffff then Inl RangeError
                     else Inr (out\<lparr>tapBip32Derivation :=
                       Some ((case tapBip32Derivation out of None \<Rightarrow> [] | Some ds \<Rightarrow> ds) @
                             [\<lparr>pubkey = keyData (key kp), masterFingerprint = mf, path = p,
                               leafHashes =
                                 map (\<lambda>i. slice (kp_value kp)
                                            (varuint_encodingLength nHashes + 32 * i)
                                            (varuint_encodingLength nHashes + 32 * i + 32))
                                   [0..<nHashes]\<rparr>])\<rparr>))))"
| "stepOf dec out kp (K_other data) =
     Inr (out\<lparr>proprietaryData :=
            Some ((case proprietaryData out of None \<Rightarrow> [] | Some ds \<Rightarrow> ds) @ [data])\<rparr>)"
| "stepOf dec out kp K_foreign = Inr out"
| "stepOf dec out kp (K_malformed e) = Inl e"
| "stepOf dec out kp K_unknown =
     Inr (out\<lparr>unknowns := Some ((case unknowns out of None \<Rightarrow> [] | Some us \<Rightarrow> us) @ [kp])\<rparr>)"

text \<open>
  The named field a pair addresses, if any; whether the value a pair carries makes the
  duplicate test of its field true once stored (a non-zero amount, a non-empty byte
  sequence; any taproot tree and any blinder index); and the decoding of a list of pairs.
\<close>

definition fieldOf :: "KeyPair \<Rightarrow> field option" where
  "fieldOf kp = (case classify kp of K_field f \<Rightarrow> Some f | _ \<Rightarrow> None)"

fun storesSet :: "field \<Rightarrow> KeyPair \<Rightarrow> bool" where
  "storesSet F_value kp = ((word_of_nat (le_nat (kp_value kp)) :: 64 word) \<noteq> 0)"
| "storesSet F_tapTree kp = True"
| "storesSet F_blinderIndex kp = True"
| "storesSet f kp = (kp_value kp \<noteq> [])"

fun decodePairs ::
  "(Buffer \<Rightarrow> error + Buffer \<times> 'p) \<Rightarrow> 'p PsetOutput \<Rightarrow> KeyPair list \<Rightarrow> error + 'p PsetOutput" where
  "decodePairs dec out [] = Inr out"
| "decodePairs dec out (kp # kps) =
     (case fromBuffer_step dec out kp of
        Inl e \<Rightarrow> Inl e
      | Inr out' \<Rightarrow> decodePairs dec out' kps)"

text \<open>The ten named confidential fields, by sub-type code.\<close>

definition namedSubType :: "byte \<Rightarrow> field option" where
  "namedSubType =
     map_of [(VALUE_COMMITMENT, F_valueCommitment), (ASSET, F_asset),
             (ASSET_COMMITMENT, F_assetCommitment), (VALUE_RANGEPROOF, F_valueRangeproof),
             (ASSET_SURJECTION_PROOF, F_assetSurjectionProof),
             (BLINDING_PUBKEY, F_blindingPubkey), (ECDH_PUBKEY, F_ecdhPubkey),
             (BLINDER_INDEX, F_blinderIndex), (BLIND_VALUE_PROOF, F_blindValueProof),
             (BLIND_ASSET_PROOF, F_blindAssetProof)]"

text \<open>Pairs for the examples: an amount, a proprietary pair under the identifier "abcd" and
  one under the registered identifier with the unrecognised sub-type 0x7f.\<close>

definition amountPair :: "Buffer \<Rightarrow> KeyPair" where
  "amountPair v = KeyPair_new (Key_new AMOUNT None) v"

definition foreignPair :: KeyPair where
  "foreignPair =
     KeyPair_new (Key_new PROPRIETARY (Some [4, 0x61, 0x62, 0x63, 0x64, 0x01])) [1, 2, 3]"

definition strangePair :: KeyPair where
  "strangePair =
     KeyPair_new (Key_new PROPRIETARY (Some (proprietaryKey 0x7f (Some [9])))) [1, 2, 3]"

text \<open>Pairs for the examples: one with an unknown key type, and a taproot tree.\<close>

definition unknownPair :: KeyPair where
  "unknownPair = KeyPair_new (Key_new 0x55 (Some [1])) [2, 3]"

definition tapTreePair :: "Buffer \<Rightarrow> KeyPair" where
  "tapTreePair v = KeyPair_new (Key_new TAP_TREE None) v"

section \<open>Notions of the round trip\<close>










section \<open>The invariant checker: blinding rules\<close>

lemma present_simps [simp]: "present None = False" "present (Some v) = (v \<noteq> [])"
  by (simp_all add: present_def)

lemma truthy_bufSet: "truthy (bufSet b) = present b"
  by (cases b) (simp_all add: truthy_def bufSet_def present_def)

lemma bufSet_present_neq:
  "present a \<Longrightarrow> (bufSet a \<noteq> bufSet b) = (\<not> present b)"
  by (cases a; cases b) (auto simp: bufSet_def present_def)

lemma present_neq_bufSet:
  "present a \<noteq> present b \<Longrightarrow> bufSet a \<noteq> bufSet b"
  by (cases a; cases b) (auto simp: bufSet_def present_def)

lemma isPartiallyBlinded_present:
  "isPartiallyBlinded out =
     (present (valueCommitment out) \<or> present (assetCommitment out) \<or>
      present (valueRangeproof out) \<or> present (assetSurjectionProof out) \<or>
      present (ecdhPubkey out))"
  by (simp add: isPartiallyBlinded_def truthy_bufSet)

lemma isFullyBlinded_present:
  "isFullyBlinded out =
     (present (valueCommitment out) \<and> present (assetCommitment out) \<and>
      present (valueRangeproof out) \<and> present (assetSurjectionProof out) \<and>
      present (ecdhPubkey out))"
  by (simp add: isFullyBlinded_def truthy_bufSet) (simp add: present_def split: option.splits)

text \<open>
  C7. A record in which at least one of the five blinding fields (value commitment, asset
  commitment, value range proof, asset surjection proof, ECDH public key) is present but
  not all five are is rejected by the invariant checker, and so is the decoding that
  reaches the end of a record with such a record built. A record with only the ECDH
  public key among the five is the instance of the witness.
\<close>

theorem C7_partially_blinded_rejected:
  assumes "present (valueCommitment out) \<or> present (assetCommitment out) \<or>
           present (valueRangeproof out) \<or> present (assetSurjectionProof out) \<or>
           present (ecdhPubkey out)"
    and "\<not> (present (valueCommitment out) \<and> present (assetCommitment out) \<and>
             present (valueRangeproof out) \<and> present (assetSurjectionProof out) \<and>
             present (ecdhPubkey out))"
  shows "isl (sanityCheck out) \<and> isl (fromBuffer_loop dec out (EndOfRecord # r))"
  using assms
  by (simp add: sanityCheck_def Let_def isPartiallyBlinded_present isFullyBlinded_present)

theorem C7_partially_blinded_rejected_witness:
  "isl (sanityCheck ((PsetOutput_new None (Some exampleAsset) None)
          \<lparr>ecdhPubkey := Some (example33 2)\<rparr> :: Buffer PsetOutput)) \<and>
   isl (fromBuffer_loop exampleDecodeBip32
          ((PsetOutput_new None (Some exampleAsset) None)\<lparr>ecdhPubkey := Some (example33 2)\<rparr>)
          [EndOfRecord]) \<and>
   fromBuffer exampleDecodeBip32
     (readerOf [proprietaryPair ASSET exampleAsset, proprietaryPair ECDH_PUBKEY (example33 2)]) =
   Inl (Error ''Output is partially blinded while it must be either unblinded or fully blinded'')"
proof -
  have "fromBuffer exampleDecodeBip32
     (readerOf [proprietaryPair ASSET exampleAsset, proprietaryPair ECDH_PUBKEY (example33 2)]) =
   Inl (Error ''Output is partially blinded while it must be either unblinded or fully blinded'')"
    by code_simp
  then show ?thesis
    using C7_partially_blinded_rejected
      [of "(PsetOutput_new None (Some exampleAsset) None)\<lparr>ecdhPubkey := Some (example33 2)\<rparr>"
          exampleDecodeBip32 "[]"]
    by (simp add: PsetOutput_new_def example33_def)
qed

text \<open>
  C8. For a fully blinded record (all five blinding fields present) the invariant checker
  fails when the blinder index is greater than 0, and so does the decoding that ends on
  such a record. When the blinder index is 0 or unset the blinder index rule does not
  fire: the checker returns the record unless the value rule or the asset rule, which
  come first, reject it. The witness holds the example of the specification: the fully
  blinded record decoded with blinder index 5 fails, the same record with blinder index
  0 decodes.
\<close>

theorem C8_fully_blinded_blinder_index:
  assumes "present (valueCommitment out)" and "present (assetCommitment out)"
    and "present (valueRangeproof out)" and "present (assetSurjectionProof out)"
    and "present (ecdhPubkey out)"
  shows "(\<forall>bi. blinderIndex out = Some bi \<and> 0 < bi \<longrightarrow>
            isl (sanityCheck out) \<and> isl (fromBuffer_loop dec out (EndOfRecord # r))) \<and>
         (blinderIndex out = None \<or> blinderIndex out = Some 0 \<longrightarrow>
            sanityCheck out =
              (if 0 < value' out \<and> \<not> present (blindValueProof out)
               then Inl (Error ''Missing output value commitment or blind proof'')
               else if present (asset out) \<and> \<not> present (blindAssetProof out)
               then Inl (Error ''Missing output asset commitment or blind proof'')
               else Inr out))"
  using assms
  by (auto simp: sanityCheck_def Let_def isPartiallyBlinded_present isFullyBlinded_present
        truthy_bufSet bufSet_present_neq)

lemma decode_fullyBlinded_index5:
  "fromBuffer exampleDecodeBip32
      (readerOf (fullyBlindedPairs @ [proprietaryPair BLINDER_INDEX [5, 0, 0, 0]])) =
     Inl (Error ''Blinder index must be unset for fully blinded output'')"
  by code_simp

lemma decode_fullyBlinded_index0:
  "fromBuffer exampleDecodeBip32
      (readerOf (fullyBlindedPairs @ [proprietaryPair BLINDER_INDEX [0, 0, 0, 0]])) =
     Inr (fullyBlinded (Some 0))"
  by code_simp

theorem C8_fully_blinded_blinder_index_witness:
  "isl (sanityCheck (fullyBlinded (Some 5))) \<and>
   sanityCheck (fullyBlinded (Some 0)) = Inr (fullyBlinded (Some 0)) \<and>
   sanityCheck (fullyBlinded None) = Inr (fullyBlinded None) \<and>
   fromBuffer exampleDecodeBip32
      (readerOf (fullyBlindedPairs @ [proprietaryPair BLINDER_INDEX [5, 0, 0, 0]])) =
     Inl (Error ''Blinder index must be unset for fully blinded output'') \<and>
   fromBuffer exampleDecodeBip32
      (readerOf (fullyBlindedPairs @ [proprietaryPair BLINDER_INDEX [0, 0, 0, 0]])) =
     Inr (fullyBlinded (Some 0))"
  using C8_fully_blinded_blinder_index [of "fullyBlinded (Some 5)" exampleDecodeBip32 "[]"]
    C8_fully_blinded_blinder_index [of "fullyBlinded (Some 0)" exampleDecodeBip32 "[]"]
    C8_fully_blinded_blinder_index [of "fullyBlinded None" exampleDecodeBip32 "[]"]
    decode_fullyBlinded_index5 decode_fullyBlinded_index0
  by (simp add: fullyBlinded_def PsetOutput_new_def example33_def)

text \<open>
  C5. The value rule compares \<^verbatim>\<open>valueCommitSet !== blindValueProofSet\<close>, where each side
  is \<^verbatim>\<open>undefined\<close> for an unset field and \<^verbatim>\<open>false\<close> for an empty one. With an amount of
  1, no value commitment and a blind value proof that is set to the empty byte sequence,
  neither field is present, and yet the checker raises the error of the value rule; the
  decoder builds this record from a BLIND_VALUE_PROOF pair of length 0.
\<close>

theorem C5_value_rule_unset_against_empty:
  "sanityCheck ((PsetOutput_new (Some 1) (Some exampleAsset) None)
       \<lparr>blindValueProof := Some []\<rparr> :: Buffer PsetOutput) =
     Inl (Error ''Missing output value commitment or blind proof'') \<and>
   \<not> present (valueCommitment ((PsetOutput_new (Some 1) (Some exampleAsset) None)
       \<lparr>blindValueProof := Some []\<rparr> :: Buffer PsetOutput)) \<and>
   \<not> present (blindValueProof ((PsetOutput_new (Some 1) (Some exampleAsset) None)
       \<lparr>blindValueProof := Some []\<rparr> :: Buffer PsetOutput)) \<and>
   fromBuffer exampleDecodeBip32
     (readerOf [KeyPair_new (Key_new AMOUNT None) [1, 0, 0, 0, 0, 0, 0, 0],
                proprietaryPair ASSET exampleAsset,
                proprietaryPair BLIND_VALUE_PROOF []]) =
     Inl (Error ''Missing output value commitment or blind proof'')"
proof -
  have "fromBuffer exampleDecodeBip32
     (readerOf [KeyPair_new (Key_new AMOUNT None) [1, 0, 0, 0, 0, 0, 0, 0],
                proprietaryPair ASSET exampleAsset,
                proprietaryPair BLIND_VALUE_PROOF []]) =
     Inl (Error ''Missing output value commitment or blind proof'')"
    by code_simp
  then show ?thesis
    by (simp add: sanityCheck_def PsetOutput_new_def bufSet_def)
qed

text \<open>
  What the value rule does in general, for a record with a positive amount: the checker
  raises its error exactly when the two three-valued flags differ, which is the case
  whenever exactly one of the two fields is present.
\<close>

lemma value_rule_exact:
  "0 < value' out \<Longrightarrow>
     (sanityCheck out = Inl (Error ''Missing output value commitment or blind proof'')) =
     (bufSet (valueCommitment out) \<noteq> bufSet (blindValueProof out))"
  by (simp add: sanityCheck_def Let_def)

lemma value_rule_exactly_one_present:
  "0 < value' out \<Longrightarrow> present (valueCommitment out) \<noteq> present (blindValueProof out) \<Longrightarrow>
     sanityCheck out = Inl (Error ''Missing output value commitment or blind proof'')"
  by (simp add: value_rule_exact present_neq_bufSet)

lemma asset_missing_iff:
  "(case b of None \<Rightarrow> True | Some a \<Rightarrow> length a = 0) = (\<not> present b)"
  by (cases b) simp_all

lemma not_present_iff: "(\<not> present b) = (b = None \<or> b = Some [])"
  by (cases b) simp_all

text \<open>
  What the asset rule does in general. A record whose asset is unset or empty and whose
  asset commitment is not present is rejected, with the missing asset error; and a record
  with a non-empty asset in which exactly one of asset commitment and blind asset proof is
  present is rejected, with the error of the asset pairing. The checker is fail-fast and
  the value rule comes first: a record that also breaks the value rule is rejected with
  the error of that rule.
\<close>

lemma asset_rule_rejects:
  "((asset out = None \<or> asset out = Some []) \<and> \<not> present (assetCommitment out) \<longrightarrow>
      sanityCheck out =
        Inl (if 0 < value' out \<and> bufSet (valueCommitment out) \<noteq> bufSet (blindValueProof out)
             then Error ''Missing output value commitment or blind proof''
             else Error ''Missing output asset'')) \<and>
   (present (asset out) \<and> present (assetCommitment out) \<noteq> present (blindAssetProof out) \<longrightarrow>
      sanityCheck out =
        Inl (if 0 < value' out \<and> bufSet (valueCommitment out) \<noteq> bufSet (blindValueProof out)
             then Error ''Missing output value commitment or blind proof''
             else Error ''Missing output asset commitment or blind proof''))"
proof (intro conjI impI)
  assume "(asset out = None \<or> asset out = Some []) \<and> \<not> present (assetCommitment out)"
  then have "\<not> present (asset out)" and "\<not> present (assetCommitment out)"
    by (simp_all add: not_present_iff)
  then show "sanityCheck out =
        Inl (if 0 < value' out \<and> bufSet (valueCommitment out) \<noteq> bufSet (blindValueProof out)
             then Error ''Missing output value commitment or blind proof''
             else Error ''Missing output asset'')"
    by (simp add: sanityCheck_def Let_def truthy_bufSet asset_missing_iff)
next
  assume a: "present (asset out) \<and> present (assetCommitment out) \<noteq> present (blindAssetProof out)"
  then have "bufSet (assetCommitment out) \<noteq> bufSet (blindAssetProof out)"
    by (simp add: present_neq_bufSet)
  with a show "sanityCheck out =
        Inl (if 0 < value' out \<and> bufSet (valueCommitment out) \<noteq> bufSet (blindValueProof out)
             then Error ''Missing output value commitment or blind proof''
             else Error ''Missing output asset commitment or blind proof'')"
    by (simp add: sanityCheck_def Let_def truthy_bufSet asset_missing_iff)
qed

lemma asset_rule_rejects_examples:
  "sanityCheck ((PsetOutput_new (Some 5) None None) :: Buffer PsetOutput) =
     Inl (Error ''Missing output asset'') \<and>
   sanityCheck ((PsetOutput_new (Some 5) (Some exampleAsset) None)
      \<lparr>assetCommitment := Some (example33 10)\<rparr> :: Buffer PsetOutput) =
     Inl (Error ''Missing output asset commitment or blind proof'')"
  using asset_rule_rejects [of "PsetOutput_new (Some 5) None None"]
    asset_rule_rejects [of "(PsetOutput_new (Some 5) (Some exampleAsset) None)
      \<lparr>assetCommitment := Some (example33 10)\<rparr>"]
  by (simp add: PsetOutput_new_def example33_def exampleAsset_def bufSet_def)

text \<open>
  For a record that passes the value rule and has a non-empty asset, the checker raises
  the error of the asset pairing exactly when the two three-valued flags
  \<^verbatim>\<open>assetCommitmentSet\<close> and \<^verbatim>\<open>blindAssetProofSet\<close> differ under \<^verbatim>\<open>!==\<close>. The flags differ
  whenever exactly one of the two fields is present, and also when one field is unset
  and the other is set to the empty byte sequence.
\<close>

lemma asset_rule_exact:
  "\<not> (0 < value' out \<and> bufSet (valueCommitment out) \<noteq> bufSet (blindValueProof out)) \<Longrightarrow>
   present (asset out) \<Longrightarrow>
     (sanityCheck out = Inl (Error ''Missing output asset commitment or blind proof'')) =
     (bufSet (assetCommitment out) \<noteq> bufSet (blindAssetProof out))"
  by (auto simp: sanityCheck_def Let_def truthy_bufSet asset_missing_iff)

lemma bufSet_unset_against_empty:
  "bufSet None \<noteq> bufSet (Some []) \<and> present None = present (Some [])"
  by (simp add: bufSet_def)

text \<open>
  C6. The asset rule compares \<^verbatim>\<open>assetCommitmentSet !== blindAssetProofSet\<close> (line 312),
  where each side is \<^verbatim>\<open>undefined\<close> for an unset field and \<^verbatim>\<open>false\<close> for an empty one. With
  an amount of 0, an asset of 32 bytes, no asset commitment and a blind asset proof that
  is set to the empty byte sequence, neither field is present, so that the pairing
  (asset commitment present) = (blind asset proof present) holds, and yet the checker
  raises the error of the asset pairing; the decoder builds this record from an ASSET pair
  and a BLIND_ASSET_PROOF pair of length 0.
\<close>

theorem C6_asset_rule_unset_against_empty:
  "present (asset ((PsetOutput_new None (Some exampleAsset) None)
       \<lparr>blindAssetProof := Some []\<rparr> :: Buffer PsetOutput)) \<and>
   present (assetCommitment ((PsetOutput_new None (Some exampleAsset) None)
       \<lparr>blindAssetProof := Some []\<rparr> :: Buffer PsetOutput)) =
   present (blindAssetProof ((PsetOutput_new None (Some exampleAsset) None)
       \<lparr>blindAssetProof := Some []\<rparr> :: Buffer PsetOutput)) \<and>
   sanityCheck ((PsetOutput_new None (Some exampleAsset) None)
       \<lparr>blindAssetProof := Some []\<rparr> :: Buffer PsetOutput) =
     Inl (Error ''Missing output asset commitment or blind proof'') \<and>
   fromBuffer exampleDecodeBip32
     (readerOf [proprietaryPair ASSET exampleAsset,
                proprietaryPair BLIND_ASSET_PROOF []]) =
     Inl (Error ''Missing output asset commitment or blind proof'')"
proof -
  have 1: "present (asset ((PsetOutput_new None (Some exampleAsset) None)
       \<lparr>blindAssetProof := Some []\<rparr> :: Buffer PsetOutput))"
    by (simp add: PsetOutput_new_def exampleAsset_def)
  have 2: "present (assetCommitment ((PsetOutput_new None (Some exampleAsset) None)
       \<lparr>blindAssetProof := Some []\<rparr> :: Buffer PsetOutput)) =
   present (blindAssetProof ((PsetOutput_new None (Some exampleAsset) None)
       \<lparr>blindAssetProof := Some []\<rparr> :: Buffer PsetOutput))"
    by (simp add: PsetOutput_new_def)
  have 3: "sanityCheck ((PsetOutput_new None (Some exampleAsset) None)
       \<lparr>blindAssetProof := Some []\<rparr> :: Buffer PsetOutput) =
     Inl (Error ''Missing output asset commitment or blind proof'')"
    by code_simp
  have 4: "fromBuffer exampleDecodeBip32
     (readerOf [proprietaryPair ASSET exampleAsset,
                proprietaryPair BLIND_ASSET_PROOF []]) =
     Inl (Error ''Missing output asset commitment or blind proof'')"
    by code_simp
  from 1 2 3 4 show ?thesis
    by blast
qed

section \<open>The decoder, case by case\<close>

lemmas keyType_defs =
  REDEEM_SCRIPT_def WITNESS_SCRIPT_def BIP32_DERIVATION_def AMOUNT_def SCRIPT_def
  TAP_INTERNAL_KEY_def TAP_TREE_def TAP_BIP32_DERIVATION_def PROPRIETARY_def

lemmas subType_defs =
  VALUE_COMMITMENT_def ASSET_def ASSET_COMMITMENT_def VALUE_RANGEPROOF_def
  ASSET_SURJECTION_PROOF_def BLINDING_PUBKEY_def ECDH_PUBKEY_def BLINDER_INDEX_def
  BLIND_VALUE_PROOF_def BLIND_ASSET_PROOF_def

lemma proprietary_foreign:
  "pd_identifier data \<noteq> magicPrefix \<Longrightarrow>
   classifyProprietary data = K_foreign \<and> fromBuffer_proprietary out kp data = Inr out"
  by (simp add: classifyProprietary_def fromBuffer_proprietary_def)

lemma proprietary_VALUE_COMMITMENT:
  "pd_identifier data = magicPrefix \<Longrightarrow> subType data = VALUE_COMMITMENT \<Longrightarrow>
   classifyProprietary data = K_field F_valueCommitment \<and>
   fromBuffer_proprietary out kp data = stepOf dec out kp (K_field F_valueCommitment)"
  by (simp add: classifyProprietary_def fromBuffer_proprietary_def assignField_def truthy_bufSet
      subType_defs)

lemma proprietary_ASSET:
  "pd_identifier data = magicPrefix \<Longrightarrow> subType data = ASSET \<Longrightarrow>
   classifyProprietary data = K_field F_asset \<and>
   fromBuffer_proprietary out kp data = stepOf dec out kp (K_field F_asset)"
  by (simp add: classifyProprietary_def fromBuffer_proprietary_def assignField_def truthy_bufSet
      subType_defs)

lemma proprietary_ASSET_COMMITMENT:
  "pd_identifier data = magicPrefix \<Longrightarrow> subType data = ASSET_COMMITMENT \<Longrightarrow>
   classifyProprietary data = K_field F_assetCommitment \<and>
   fromBuffer_proprietary out kp data = stepOf dec out kp (K_field F_assetCommitment)"
  by (simp add: classifyProprietary_def fromBuffer_proprietary_def assignField_def truthy_bufSet
      subType_defs)

lemma proprietary_VALUE_RANGEPROOF:
  "pd_identifier data = magicPrefix \<Longrightarrow> subType data = VALUE_RANGEPROOF \<Longrightarrow>
   classifyProprietary data = K_field F_valueRangeproof \<and>
   fromBuffer_proprietary out kp data = stepOf dec out kp (K_field F_valueRangeproof)"
  by (simp add: classifyProprietary_def fromBuffer_proprietary_def assignField_def truthy_bufSet
      subType_defs)

lemma proprietary_ASSET_SURJECTION_PROOF:
  "pd_identifier data = magicPrefix \<Longrightarrow> subType data = ASSET_SURJECTION_PROOF \<Longrightarrow>
   classifyProprietary data = K_field F_assetSurjectionProof \<and>
   fromBuffer_proprietary out kp data = stepOf dec out kp (K_field F_assetSurjectionProof)"
  by (simp add: classifyProprietary_def fromBuffer_proprietary_def assignField_def truthy_bufSet
      subType_defs)

lemma proprietary_BLINDING_PUBKEY:
  "pd_identifier data = magicPrefix \<Longrightarrow> subType data = BLINDING_PUBKEY \<Longrightarrow>
   classifyProprietary data = K_field F_blindingPubkey \<and>
   fromBuffer_proprietary out kp data = stepOf dec out kp (K_field F_blindingPubkey)"
  by (simp add: classifyProprietary_def fromBuffer_proprietary_def assignField_def truthy_bufSet
      subType_defs)

lemma proprietary_ECDH_PUBKEY:
  "pd_identifier data = magicPrefix \<Longrightarrow> subType data = ECDH_PUBKEY \<Longrightarrow>
   classifyProprietary data = K_field F_ecdhPubkey \<and>
   fromBuffer_proprietary out kp data = stepOf dec out kp (K_field F_ecdhPubkey)"
  by (simp add: classifyProprietary_def fromBuffer_proprietary_def assignField_def truthy_bufSet
      subType_defs)

lemma proprietary_BLINDER_INDEX:
  "pd_identifier data = magicPrefix \<Longrightarrow> subType data = BLINDER_INDEX \<Longrightarrow>
   classifyProprietary data = K_field F_blinderIndex \<and>
   fromBuffer_proprietary out kp data = stepOf dec out kp (K_field F_blinderIndex)"
  by (simp add: classifyProprietary_def fromBuffer_proprietary_def assignField_def truthy_bufSet
      subType_defs)

lemma proprietary_BLIND_VALUE_PROOF:
  "pd_identifier data = magicPrefix \<Longrightarrow> subType data = BLIND_VALUE_PROOF \<Longrightarrow>
   classifyProprietary data = K_field F_blindValueProof \<and>
   fromBuffer_proprietary out kp data = stepOf dec out kp (K_field F_blindValueProof)"
  by (simp add: classifyProprietary_def fromBuffer_proprietary_def assignField_def truthy_bufSet
      subType_defs)

lemma proprietary_BLIND_ASSET_PROOF:
  "pd_identifier data = magicPrefix \<Longrightarrow> subType data = BLIND_ASSET_PROOF \<Longrightarrow>
   classifyProprietary data = K_field F_blindAssetProof \<and>
   fromBuffer_proprietary out kp data = stepOf dec out kp (K_field F_blindAssetProof)"
  by (simp add: classifyProprietary_def fromBuffer_proprietary_def assignField_def truthy_bufSet
      subType_defs)

lemma proprietary_other:
  "pd_identifier data = magicPrefix \<Longrightarrow>
   subType data \<noteq> VALUE_COMMITMENT \<Longrightarrow>
   subType data \<noteq> ASSET \<Longrightarrow>
   subType data \<noteq> ASSET_COMMITMENT \<Longrightarrow>
   subType data \<noteq> VALUE_RANGEPROOF \<Longrightarrow>
   subType data \<noteq> ASSET_SURJECTION_PROOF \<Longrightarrow>
   subType data \<noteq> BLINDING_PUBKEY \<Longrightarrow>
   subType data \<noteq> ECDH_PUBKEY \<Longrightarrow>
   subType data \<noteq> BLINDER_INDEX \<Longrightarrow>
   subType data \<noteq> BLIND_VALUE_PROOF \<Longrightarrow>
   subType data \<noteq> BLIND_ASSET_PROOF \<Longrightarrow>
   classifyProprietary data = K_other data \<and>
   fromBuffer_proprietary out kp data = stepOf dec out kp (K_other data)"
  by (simp add: classifyProprietary_def fromBuffer_proprietary_def)

lemma proprietary_classify:
  "fromBuffer_proprietary out kp data = stepOf dec out kp (classifyProprietary data)"
proof (cases "pd_identifier data = magicPrefix")
  case False
  then show ?thesis using proprietary_foreign [of data out kp] by simp
next
  case True
  consider "subType data = VALUE_COMMITMENT" | "subType data = ASSET" | "subType data = ASSET_COMMITMENT" | "subType data = VALUE_RANGEPROOF" | "subType data = ASSET_SURJECTION_PROOF" | "subType data = BLINDING_PUBKEY" | "subType data = ECDH_PUBKEY" | "subType data = BLINDER_INDEX" | "subType data = BLIND_VALUE_PROOF" | "subType data = BLIND_ASSET_PROOF"
    | "subType data \<noteq> VALUE_COMMITMENT \<and> subType data \<noteq> ASSET \<and> subType data \<noteq> ASSET_COMMITMENT \<and> subType data \<noteq> VALUE_RANGEPROOF \<and> subType data \<noteq> ASSET_SURJECTION_PROOF \<and> subType data \<noteq> BLINDING_PUBKEY \<and> subType data \<noteq> ECDH_PUBKEY \<and> subType data \<noteq> BLINDER_INDEX \<and> subType data \<noteq> BLIND_VALUE_PROOF \<and> subType data \<noteq> BLIND_ASSET_PROOF"
    by blast
  then show ?thesis
  proof cases
    case 1
    with True show ?thesis using proprietary_VALUE_COMMITMENT [of data out kp dec] by simp
  next
    case 2
    with True show ?thesis using proprietary_ASSET [of data out kp dec] by simp
  next
    case 3
    with True show ?thesis using proprietary_ASSET_COMMITMENT [of data out kp dec] by simp
  next
    case 4
    with True show ?thesis using proprietary_VALUE_RANGEPROOF [of data out kp dec] by simp
  next
    case 5
    with True show ?thesis using proprietary_ASSET_SURJECTION_PROOF [of data out kp dec] by simp
  next
    case 6
    with True show ?thesis using proprietary_BLINDING_PUBKEY [of data out kp dec] by simp
  next
    case 7
    with True show ?thesis using proprietary_ECDH_PUBKEY [of data out kp dec] by simp
  next
    case 8
    with True show ?thesis using proprietary_BLINDER_INDEX [of data out kp dec] by simp
  next
    case 9
    with True show ?thesis using proprietary_BLIND_VALUE_PROOF [of data out kp dec] by simp
  next
    case 10
    with True show ?thesis using proprietary_BLIND_ASSET_PROOF [of data out kp dec] by simp
  next
    case 11
    with True show ?thesis using proprietary_other [of data out kp dec] by simp
  qed
qed

lemma step_REDEEM_SCRIPT:
  "keyType (key kp) = REDEEM_SCRIPT \<Longrightarrow>
   classify kp = K_field F_redeemScript \<and> fromBuffer_step dec out kp = stepOf dec out kp (K_field F_redeemScript)"
  by (simp add: classify_def fromBuffer_step_def assignField_def truthy_bufSet keyType_defs)

lemma step_WITNESS_SCRIPT:
  "keyType (key kp) = WITNESS_SCRIPT \<Longrightarrow>
   classify kp = K_field F_witnessScript \<and> fromBuffer_step dec out kp = stepOf dec out kp (K_field F_witnessScript)"
  by (simp add: classify_def fromBuffer_step_def assignField_def truthy_bufSet keyType_defs)

lemma step_BIP32_DERIVATION:
  "keyType (key kp) = BIP32_DERIVATION \<Longrightarrow>
   classify kp = K_bip32 \<and> fromBuffer_step dec out kp = stepOf dec out kp (K_bip32)"
  by (simp add: classify_def fromBuffer_step_def assignField_def truthy_bufSet keyType_defs)

lemma step_AMOUNT:
  "keyType (key kp) = AMOUNT \<Longrightarrow>
   classify kp = K_field F_value \<and> fromBuffer_step dec out kp = stepOf dec out kp (K_field F_value)"
  by (simp add: classify_def fromBuffer_step_def assignField_def truthy_bufSet keyType_defs)

lemma step_SCRIPT:
  "keyType (key kp) = SCRIPT \<Longrightarrow>
   classify kp = K_field F_script \<and> fromBuffer_step dec out kp = stepOf dec out kp (K_field F_script)"
  by (simp add: classify_def fromBuffer_step_def assignField_def truthy_bufSet keyType_defs)

lemma step_TAP_BIP32_DERIVATION:
  "keyType (key kp) = TAP_BIP32_DERIVATION \<Longrightarrow>
   classify kp = K_tapBip32 \<and> fromBuffer_step dec out kp = stepOf dec out kp (K_tapBip32)"
  by (simp add: classify_def fromBuffer_step_def assignField_def truthy_bufSet keyType_defs)

lemma step_TAP_TREE:
  "keyType (key kp) = TAP_TREE \<Longrightarrow>
   classify kp = K_field F_tapTree \<and> fromBuffer_step dec out kp = stepOf dec out kp (K_field F_tapTree)"
  by (simp add: classify_def fromBuffer_step_def assignField_def truthy_bufSet keyType_defs split: sum.split)

lemma step_TAP_INTERNAL_KEY:
  "keyType (key kp) = TAP_INTERNAL_KEY \<Longrightarrow>
   classify kp = K_field F_tapInternalKey \<and> fromBuffer_step dec out kp = stepOf dec out kp (K_field F_tapInternalKey)"
  by (simp add: classify_def fromBuffer_step_def assignField_def truthy_bufSet keyType_defs)

lemma classify_PROPRIETARY:
  "keyType (key kp) = PROPRIETARY \<Longrightarrow>
   classify kp =
     (case ProprietaryData_fromKeyPair kp of
        Inl e \<Rightarrow> K_malformed e
      | Inr data \<Rightarrow> classifyProprietary data)"
  by (simp add: classify_def keyType_defs)

lemma step_PROPRIETARY:
  "keyType (key kp) = PROPRIETARY \<Longrightarrow>
   classify kp =
     (case ProprietaryData_fromKeyPair kp of
        Inl e \<Rightarrow> K_malformed e
      | Inr data \<Rightarrow> classifyProprietary data) \<and>
   fromBuffer_step dec out kp =
     (case ProprietaryData_fromKeyPair kp of
        Inl e \<Rightarrow> Inl e
      | Inr data \<Rightarrow> fromBuffer_proprietary out kp data)"
  by (simp add: classify_def fromBuffer_step_def keyType_defs)

lemma step_unknown:
  "keyType (key kp) \<noteq> REDEEM_SCRIPT \<Longrightarrow>
   keyType (key kp) \<noteq> WITNESS_SCRIPT \<Longrightarrow>
   keyType (key kp) \<noteq> BIP32_DERIVATION \<Longrightarrow>
   keyType (key kp) \<noteq> AMOUNT \<Longrightarrow>
   keyType (key kp) \<noteq> SCRIPT \<Longrightarrow>
   keyType (key kp) \<noteq> TAP_BIP32_DERIVATION \<Longrightarrow>
   keyType (key kp) \<noteq> TAP_TREE \<Longrightarrow>
   keyType (key kp) \<noteq> TAP_INTERNAL_KEY \<Longrightarrow>
   keyType (key kp) \<noteq> PROPRIETARY \<Longrightarrow>
   classify kp = K_unknown \<and> fromBuffer_step dec out kp = stepOf dec out kp K_unknown"
  by (simp add: classify_def fromBuffer_step_def)

lemma step_classify:
  "fromBuffer_step dec out kp = stepOf dec out kp (classify kp)"
proof -
  consider "keyType (key kp) = REDEEM_SCRIPT" | "keyType (key kp) = WITNESS_SCRIPT" | "keyType (key kp) = BIP32_DERIVATION" | "keyType (key kp) = AMOUNT" | "keyType (key kp) = SCRIPT" | "keyType (key kp) = TAP_BIP32_DERIVATION" | "keyType (key kp) = TAP_TREE" | "keyType (key kp) = TAP_INTERNAL_KEY" | "keyType (key kp) = PROPRIETARY"
    | "keyType (key kp) \<noteq> REDEEM_SCRIPT \<and> keyType (key kp) \<noteq> WITNESS_SCRIPT \<and> keyType (key kp) \<noteq> BIP32_DERIVATION \<and> keyType (key kp) \<noteq> AMOUNT \<and> keyType (key kp) \<noteq> SCRIPT \<and> keyType (key kp) \<noteq> TAP_BIP32_DERIVATION \<and> keyType (key kp) \<noteq> TAP_TREE \<and> keyType (key kp) \<noteq> TAP_INTERNAL_KEY \<and> keyType (key kp) \<noteq> PROPRIETARY"
    by blast
  then show ?thesis
  proof cases
    case 1
    then show ?thesis using step_REDEEM_SCRIPT [of kp dec out] by simp
  next
    case 2
    then show ?thesis using step_WITNESS_SCRIPT [of kp dec out] by simp
  next
    case 3
    then show ?thesis using step_BIP32_DERIVATION [of kp dec out] by simp
  next
    case 4
    then show ?thesis using step_AMOUNT [of kp dec out] by simp
  next
    case 5
    then show ?thesis using step_SCRIPT [of kp dec out] by simp
  next
    case 6
    then show ?thesis using step_TAP_BIP32_DERIVATION [of kp dec out] by simp
  next
    case 7
    then show ?thesis using step_TAP_TREE [of kp dec out] by simp
  next
    case 8
    then show ?thesis using step_TAP_INTERNAL_KEY [of kp dec out] by simp
  next
    case 9
    show ?thesis
    proof (cases "ProprietaryData_fromKeyPair kp")
      case (Inl e)
      with 9 show ?thesis using step_PROPRIETARY [of kp dec out] by simp
    next
      case (Inr data)
      with 9 show ?thesis
        using step_PROPRIETARY [of kp dec out] proprietary_classify [of out kp data dec] by simp
    qed
  next
    case 10
    then show ?thesis using step_unknown [of kp dec out] by simp
  qed
qed

lemma fieldOf_classify: "fieldOf kp = Some f \<Longrightarrow> classify kp = K_field f"
  by (cases "classify kp") (simp_all add: fieldOf_def)

lemma assignField_Inr:
  "assignField f out kp = Inr out' \<Longrightarrow>
   \<not> isSet f out \<and> lengthError f kp = None \<and> out' = assign f kp out"
  by (simp add: assignField_def split: if_splits option.splits)

lemma step_duplicate:
  "fieldOf kp = Some f \<Longrightarrow> isSet f out \<Longrightarrow>
   fromBuffer_step dec out kp = Inl (OutputDuplicateFieldError (fieldName f))"
  by (simp add: step_classify fieldOf_classify assignField_def)

lemma assign_keeps: "isSet g out \<Longrightarrow> \<not> isSet f out \<Longrightarrow> isSet g (assign f kp out)"
  by (cases f; cases g) (simp_all split: sum.split)

lemma stepOf_keeps:
  "stepOf dec out kp k = Inr out' \<Longrightarrow> isSet g out \<Longrightarrow> isSet g out'"
proof (cases k)
  case (K_field f)
  assume "stepOf dec out kp k = Inr out'" and "isSet g out"
  with K_field show ?thesis
    using assignField_Inr [of f out kp out'] by (simp add: assign_keeps)
next
  case K_bip32
  assume "stepOf dec out kp k = Inr out'" and "isSet g out"
  with K_bip32 show ?thesis
    by (cases g) (auto split: if_splits sum.splits prod.splits)
next
  case K_tapBip32
  assume "stepOf dec out kp k = Inr out'" and "isSet g out"
  with K_tapBip32 show ?thesis
    by (cases g) (auto split: if_splits sum.splits prod.splits)
next
  case (K_other d)
  assume "stepOf dec out kp k = Inr out'" and "isSet g out"
  with K_other show ?thesis by (cases g) auto
next
  case K_foreign
  assume "stepOf dec out kp k = Inr out'" and "isSet g out"
  with K_foreign show ?thesis by simp
next
  case (K_malformed e)
  assume "stepOf dec out kp k = Inr out'"
  with K_malformed show ?thesis by simp
next
  case K_unknown
  assume "stepOf dec out kp k = Inr out'" and "isSet g out"
  with K_unknown show ?thesis by (cases g) auto
qed

lemma step_keeps:
  "fromBuffer_step dec out kp = Inr out' \<Longrightarrow> isSet g out \<Longrightarrow> isSet g out'"
  using stepOf_keeps [of dec out kp "classify kp" out' g] by (simp add: step_classify)

lemma assign_stores:
  "storesSet f kp \<Longrightarrow> lengthError f kp = None \<Longrightarrow> isSet f (assign f kp out)"
  by (cases f) (simp_all add: word_greater_zero_iff split: sum.splits)

lemma step_stores:
  "fieldOf kp = Some f \<Longrightarrow> storesSet f kp \<Longrightarrow> fromBuffer_step dec out kp = Inr out' \<Longrightarrow>
   isSet f out'"
  using assignField_Inr [of f out kp out']
  by (simp add: step_classify fieldOf_classify assign_stores)

lemma decodePairs_append:
  "decodePairs dec out (xs @ ys) =
     (case decodePairs dec out xs of Inl e \<Rightarrow> Inl e | Inr out' \<Rightarrow> decodePairs dec out' ys)"
  by (induction xs arbitrary: out) (simp_all split: sum.split)

lemma decodePairs_keeps:
  "decodePairs dec out kps = Inr out' \<Longrightarrow> isSet g out \<Longrightarrow> isSet g out'"
proof (induction kps arbitrary: out)
  case Nil
  then show ?case by simp
next
  case (Cons kp kps)
  then show ?case
    by (auto split: sum.splits dest: step_keeps)
qed

lemma fromBuffer_loop_pairs:
  "fromBuffer_loop dec out (map KeyValuePair kps @ r) =
     (case decodePairs dec out kps of Inl e \<Rightarrow> Inl e | Inr out' \<Rightarrow> fromBuffer_loop dec out' r)"
  by (induction kps arbitrary: out) (simp_all split: sum.split)

lemma second_occurrence:
  assumes "fieldOf kp1 = Some f" and "fieldOf kp2 = Some f" and "storesSet f kp1"
  shows "decodePairs dec out (pre @ kp1 # mid @ [kp2]) =
     (case decodePairs dec out (pre @ kp1 # mid) of
        Inl e \<Rightarrow> Inl e
      | Inr out' \<Rightarrow> Inl (OutputDuplicateFieldError (fieldName f)))"
proof (cases "decodePairs dec out (pre @ kp1 # mid)")
  case (Inl e)
  then show ?thesis
    using decodePairs_append [of dec out "pre @ kp1 # mid" "[kp2]"] by simp
next
  case (Inr out3)
  then obtain out1 out2 where
    1: "decodePairs dec out pre = Inr out1" and
    2: "fromBuffer_step dec out1 kp1 = Inr out2" and
    3: "decodePairs dec out2 mid = Inr out3"
    by (auto simp: decodePairs_append split: sum.splits)
  from 2 assms have "isSet f out2" by (simp add: step_stores)
  with 3 have "isSet f out3" by (rule decodePairs_keeps)
  with assms have "fromBuffer_step dec out3 kp2 = Inl (OutputDuplicateFieldError (fieldName f))"
    by (simp add: step_duplicate)
  with Inr show ?thesis
    using decodePairs_append [of dec out "pre @ kp1 # mid" "[kp2]"] by simp
qed

lemma classifyProprietary_named:
  "pd_identifier data = magicPrefix \<Longrightarrow>
   classifyProprietary data =
     (case namedSubType (subType data) of Some f \<Rightarrow> K_field f | None \<Rightarrow> K_other data)"
  by (simp add: classifyProprietary_def namedSubType_def subType_defs)

lemma fieldOf_proprietary:
  "keyType (key kp) = PROPRIETARY \<Longrightarrow> ProprietaryData_fromKeyPair kp = Inr data \<Longrightarrow>
   pd_identifier data = magicPrefix \<Longrightarrow> fieldOf kp = namedSubType (subType data)"
  by (simp add: fieldOf_def classify_PROPRIETARY classifyProprietary_named split: option.split)

lemma fieldOf_amountPair: "fieldOf (amountPair v) = Some F_value"
  by (simp add: fieldOf_def classify_def amountPair_def KeyPair_new_def Key_new_def keyType_defs)

lemma fromBuffer_second_occurrence:
  assumes "fieldOf kp1 = Some f" and "fieldOf kp2 = Some f" and "storesSet f kp1"
  shows "fromBuffer dec (map KeyValuePair (pre @ kp1 # mid @ [kp2]) @ r) =
     (case decodePairs dec (PsetOutput_new None None None) (pre @ kp1 # mid) of
        Inl e \<Rightarrow> Inl e
      | Inr out' \<Rightarrow> Inl (OutputDuplicateFieldError (fieldName f)))"
proof -
  have "fromBuffer dec (map KeyValuePair (pre @ kp1 # mid @ [kp2]) @ r) =
     (case decodePairs dec (PsetOutput_new None None None) (pre @ kp1 # mid @ [kp2]) of
        Inl e \<Rightarrow> Inl e
      | Inr out' \<Rightarrow> fromBuffer_loop dec out' r)"
    unfolding fromBuffer_def by (rule fromBuffer_loop_pairs)
  then show ?thesis
    unfolding second_occurrence [OF assms]
    by (cases "decodePairs dec (PsetOutput_new None None None) (pre @ kp1 # mid)") simp_all
qed

section \<open>Duplicate fields\<close>

text \<open>
  C2, as amended. In a key/value stream in which two pairs address the same named field
  (redeem script, witness script, amount, script, taproot tree, taproot internal key or
  one of the ten named proprietary fields) and the first of them carries a value that
  makes the field count as set (a non-empty byte sequence; a non-zero amount; any taproot
  tree; any blinder index), the decoding fails whatever follows the second pair: with the
  error of an earlier pair if one of the pairs before the second occurrence raises, and
  otherwise with the duplicate-field error that names the field. No record is returned,
  so the value of the first occurrence is not overwritten.
\<close>

theorem C2_duplicate_after_stored_value:
  assumes "fieldOf kp1 = Some f" and "fieldOf kp2 = Some f" and "storesSet f kp1"
  shows "fromBuffer dec (map KeyValuePair (pre @ kp1 # mid @ [kp2]) @ r) =
     (case decodePairs dec (PsetOutput_new None None None) (pre @ kp1 # mid) of
        Inl e \<Rightarrow> Inl e
      | Inr out' \<Rightarrow> Inl (OutputDuplicateFieldError (fieldName f)))"
  by (rule fromBuffer_second_occurrence [OF assms])

theorem C2_duplicate_after_stored_value_witness:
  "fromBuffer exampleDecodeBip32
     (map KeyValuePair ([] @ amountPair [7, 0, 0, 0, 0, 0, 0, 0] #
        [proprietaryPair ASSET exampleAsset] @ [amountPair [5, 0, 0, 0, 0, 0, 0, 0]]) @
      [EndOfRecord]) =
   Inl (DuplicateField ''Duplicated output value'')"
proof -
  have 3: "storesSet F_value (amountPair [7, 0, 0, 0, 0, 0, 0, 0])"
    by (simp add: amountPair_def KeyPair_new_def)
  have 4: "decodePairs exampleDecodeBip32 (PsetOutput_new None None None)
      ([] @ amountPair [7, 0, 0, 0, 0, 0, 0, 0] # [proprietaryPair ASSET exampleAsset]) =
     Inr (PsetOutput_new (Some 7) (Some exampleAsset) None)"
    by code_simp
  show ?thesis
    using C2_duplicate_after_stored_value [OF fieldOf_amountPair fieldOf_amountPair 3,
        where dec = exampleDecodeBip32 and pre = "[]"
          and mid = "[proprietaryPair ASSET exampleAsset]" and r = "[EndOfRecord]"] 4
    by (simp add: OutputDuplicateFieldError_def)
qed

text \<open>
  The claim as stated fails where the first occurrence carries a zero amount or an empty
  byte sequence: the second AMOUNT pair, and the second REDEEM_SCRIPT pair, overwrite the
  first and the decoding succeeds.
\<close>

theorem C2_zero_or_empty_first_counterexample:
  "fieldOf (amountPair [0, 0, 0, 0, 0, 0, 0, 0]) = Some F_value \<and>
   fieldOf (amountPair [5, 0, 0, 0, 0, 0, 0, 0]) = Some F_value \<and>
   fromBuffer exampleDecodeBip32
     (readerOf [amountPair [0, 0, 0, 0, 0, 0, 0, 0], amountPair [5, 0, 0, 0, 0, 0, 0, 0],
                proprietaryPair ASSET exampleAsset]) =
   Inr (PsetOutput_new (Some 5) (Some exampleAsset) None) \<and>
   fromBuffer exampleDecodeBip32
     (readerOf [KeyPair_new (Key_new REDEEM_SCRIPT None) [],
                KeyPair_new (Key_new REDEEM_SCRIPT None) [0x51],
                proprietaryPair ASSET exampleAsset]) =
   Inr ((PsetOutput_new None (Some exampleAsset) None)\<lparr>redeemScript := Some [0x51]\<rparr>)"
proof -
  have 3: "fromBuffer exampleDecodeBip32
     (readerOf [amountPair [0, 0, 0, 0, 0, 0, 0, 0], amountPair [5, 0, 0, 0, 0, 0, 0, 0],
                proprietaryPair ASSET exampleAsset]) =
   Inr (PsetOutput_new (Some 5) (Some exampleAsset) None)"
    by code_simp
  have 4: "fromBuffer exampleDecodeBip32
     (readerOf [KeyPair_new (Key_new REDEEM_SCRIPT None) [],
                KeyPair_new (Key_new REDEEM_SCRIPT None) [0x51],
                proprietaryPair ASSET exampleAsset]) =
   Inr ((PsetOutput_new None (Some exampleAsset) None)\<lparr>redeemScript := Some [0x51]\<rparr>)"
    by code_simp
  from 3 4 show ?thesis by (simp add: fieldOf_amountPair)
qed

text \<open>
  C10. In a stream with two BLINDER_INDEX proprietary pairs under the registered
  identifier the decoding fails: with the duplicate-field error for the blinder index
  once the pairs before the second one have been decoded (the decoder is fail-fast, so an
  error of an earlier pair comes first). The test is that the field has been assigned:
  a record whose blinder index is 0 rejects the pair, and a first pair of four zero bytes
  leaves the blinder index assigned to 0.
\<close>

theorem C10_blinder_index_duplicate:
  fixes dec :: "Buffer \<Rightarrow> error + Buffer \<times> 'p"
  assumes "keyType (key kp1) = PROPRIETARY" and "ProprietaryData_fromKeyPair kp1 = Inr d1"
    and "pd_identifier d1 = magicPrefix" and "subType d1 = BLINDER_INDEX"
    and "keyType (key kp2) = PROPRIETARY" and "ProprietaryData_fromKeyPair kp2 = Inr d2"
    and "pd_identifier d2 = magicPrefix" and "subType d2 = BLINDER_INDEX"
  shows "fromBuffer dec (map KeyValuePair (pre @ kp1 # mid @ [kp2]) @ r) =
     (case decodePairs dec (PsetOutput_new None None None) (pre @ kp1 # mid) of
        Inl e \<Rightarrow> Inl e
      | Inr out' \<Rightarrow> Inl (OutputDuplicateFieldError ''blinder index'')) \<and>
     (\<forall>out. blinderIndex out = Some 0 \<longrightarrow>
        fromBuffer_step dec out kp2 = Inl (OutputDuplicateFieldError ''blinder index'')) \<and>
     (\<forall>out out'. length (kp_value kp1) = 4 \<and> le_nat (kp_value kp1) = 0 \<and>
        fromBuffer_step dec out kp1 = Inr out' \<longrightarrow> blinderIndex out' = Some 0)"
proof -
  have f1: "fieldOf kp1 = Some F_blinderIndex"
    using assms by (simp add: fieldOf_proprietary namedSubType_def subType_defs)
  have f2: "fieldOf kp2 = Some F_blinderIndex"
    using assms by (simp add: fieldOf_proprietary namedSubType_def subType_defs)
  have s: "storesSet F_blinderIndex kp1" by simp
  have a: "fromBuffer dec (map KeyValuePair (pre @ kp1 # mid @ [kp2]) @ r) =
     (case decodePairs dec (PsetOutput_new None None None) (pre @ kp1 # mid) of
        Inl e \<Rightarrow> Inl e
      | Inr out' \<Rightarrow> Inl (OutputDuplicateFieldError ''blinder index''))"
    using fromBuffer_second_occurrence [OF f1 f2 s, where dec = dec and pre = pre and mid = mid and r = r]
    by (simp only: fieldName.simps)
  have b: "\<forall>out. blinderIndex out = Some 0 \<longrightarrow>
        fromBuffer_step dec out kp2 = Inl (OutputDuplicateFieldError ''blinder index'')"
  proof (intro allI impI)
    fix out :: "'p PsetOutput"
    assume "blinderIndex out = Some 0"
    then have "isSet F_blinderIndex out" by simp
    then show "fromBuffer_step dec out kp2 = Inl (OutputDuplicateFieldError ''blinder index'')"
      using step_duplicate [OF f2, where out = out and dec = dec] by simp
  qed
  have c: "\<forall>out out'. length (kp_value kp1) = 4 \<and> le_nat (kp_value kp1) = 0 \<and>
        fromBuffer_step dec out kp1 = Inr out' \<longrightarrow> blinderIndex out' = Some 0"
    using fieldOf_classify [OF f1]
    by (auto simp: step_classify dest!: assignField_Inr)
  from a b c show ?thesis by simp
qed

theorem C10_blinder_index_duplicate_witness:
  "fromBuffer exampleDecodeBip32
     (map KeyValuePair ([proprietaryPair ASSET exampleAsset] @
        proprietaryPair BLINDER_INDEX [0, 0, 0, 0] # [] @
        [proprietaryPair BLINDER_INDEX [0, 0, 0, 0]]) @ [EndOfRecord]) =
   Inl (DuplicateField ''Duplicated output blinder index'')"
proof -
  have 1: "ProprietaryData_fromKeyPair (proprietaryPair BLINDER_INDEX [0, 0, 0, 0]) =
     Inr \<lparr>pd_identifier = magicPrefix, subType = BLINDER_INDEX, pd_keyData = [],
          pd_value = [0, 0, 0, 0]\<rparr>"
    by code_simp
  have 2: "keyType (key (proprietaryPair BLINDER_INDEX [0, 0, 0, 0])) = PROPRIETARY"
    by (simp add: proprietaryPair_def KeyPair_new_def Key_new_def)
  have 3: "decodePairs exampleDecodeBip32 (PsetOutput_new None None None)
     ([proprietaryPair ASSET exampleAsset] @ proprietaryPair BLINDER_INDEX [0, 0, 0, 0] # []) =
     Inr ((PsetOutput_new None (Some exampleAsset) None)\<lparr>blinderIndex := Some 0\<rparr>)"
    by code_simp
  show ?thesis
    using C10_blinder_index_duplicate [OF 2 1 _ _ 2 1, where dec = exampleDecodeBip32
          and pre = "[proprietaryPair ASSET exampleAsset]" and mid = "[]"
          and r = "[EndOfRecord]"] 3
    by (simp add: OutputDuplicateFieldError_def)
qed

section \<open>Proprietary pairs\<close>

text \<open>
  C3, as amended. For a PROPRIETARY pair whose key holds a proprietary envelope: under
  the registered identifier, a sub-type of one of the ten named confidential fields is
  decoded into that field (duplicate test, length check, assignment), and any other
  sub-type appends the envelope to \<open>proprietaryData\<close>; under any other identifier the
  pair is skipped and the record is left as it was.
\<close>

theorem C3_proprietary_dispatch:
  assumes "keyType (key kp) = PROPRIETARY" and "ProprietaryData_fromKeyPair kp = Inr data"
  shows "(\<forall>f. pd_identifier data = magicPrefix \<and> namedSubType (subType data) = Some f \<longrightarrow>
            fromBuffer_step dec out kp = assignField f out kp) \<and>
         (pd_identifier data = magicPrefix \<and> namedSubType (subType data) = None \<longrightarrow>
            fromBuffer_step dec out kp =
              Inr (out\<lparr>proprietaryData :=
                Some ((case proprietaryData out of None \<Rightarrow> [] | Some ds \<Rightarrow> ds) @ [data])\<rparr>)) \<and>
         (pd_identifier data \<noteq> magicPrefix \<longrightarrow> fromBuffer_step dec out kp = Inr out)"
  using assms step_PROPRIETARY [of kp dec out] proprietary_foreign [of data out kp]
  by (auto simp: proprietary_classify [of out kp data dec] classifyProprietary_named)

theorem C3_proprietary_dispatch_witness:
  "fromBuffer_step exampleDecodeBip32 (PsetOutput_new None None None)
     (proprietaryPair ASSET exampleAsset) =
     Inr (PsetOutput_new None (Some exampleAsset) None) \<and>
   fromBuffer_step exampleDecodeBip32 (PsetOutput_new None None None) strangePair =
     Inr ((PsetOutput_new None None None)
       \<lparr>proprietaryData := Some [\<lparr>pd_identifier = magicPrefix, subType = 0x7f,
           pd_keyData = [9], pd_value = [1, 2, 3]\<rparr>]\<rparr>) \<and>
   fromBuffer_step exampleDecodeBip32 (PsetOutput_new None None None) foreignPair =
     Inr (PsetOutput_new None None None)"
proof -
  have k1: "keyType (key (proprietaryPair ASSET exampleAsset)) = PROPRIETARY"
    by (simp add: proprietaryPair_def KeyPair_new_def Key_new_def)
  have d1: "ProprietaryData_fromKeyPair (proprietaryPair ASSET exampleAsset) =
     Inr \<lparr>pd_identifier = magicPrefix, subType = ASSET, pd_keyData = [],
          pd_value = exampleAsset\<rparr>"
    by code_simp
  have k2: "keyType (key strangePair) = PROPRIETARY"
    by (simp add: strangePair_def KeyPair_new_def Key_new_def)
  have d2: "ProprietaryData_fromKeyPair strangePair =
     Inr \<lparr>pd_identifier = magicPrefix, subType = 0x7f, pd_keyData = [9],
          pd_value = [1, 2, 3]\<rparr>"
    by code_simp
  have k3: "keyType (key foreignPair) = PROPRIETARY"
    by (simp add: foreignPair_def KeyPair_new_def Key_new_def)
  have d3: "ProprietaryData_fromKeyPair foreignPair =
     Inr \<lparr>pd_identifier = [0x61, 0x62, 0x63, 0x64], subType = 1, pd_keyData = [],
          pd_value = [1, 2, 3]\<rparr>"
    by code_simp
  show ?thesis
    using C3_proprietary_dispatch [OF k1 d1, of exampleDecodeBip32 "PsetOutput_new None None None"]
      C3_proprietary_dispatch [OF k2 d2, of exampleDecodeBip32 "PsetOutput_new None None None"]
      C3_proprietary_dispatch [OF k3 d3, of exampleDecodeBip32 "PsetOutput_new None None None"]
    by (simp add: namedSubType_def subType_defs assignField_def PsetOutput_new_def
        proprietaryPair_def KeyPair_new_def exampleAsset_def magicPrefix_def)
qed

text \<open>
  The claim as stated fails for a pair under another identifier: the pair with the
  identifier "abcd" is read without error and is in no field of the decoded record.
\<close>

theorem C3_foreign_identifier_counterexample:
  "keyType (key foreignPair) = PROPRIETARY \<and>
   ProprietaryData_fromKeyPair foreignPair =
     Inr \<lparr>pd_identifier = [0x61, 0x62, 0x63, 0x64], subType = 1, pd_keyData = [],
          pd_value = [1, 2, 3]\<rparr> \<and>
   [0x61, 0x62, 0x63, 0x64] \<noteq> magicPrefix \<and>
   fromBuffer exampleDecodeBip32 (readerOf [proprietaryPair ASSET exampleAsset, foreignPair]) =
     Inr (PsetOutput_new None (Some exampleAsset) None) \<and>
   proprietaryData (PsetOutput_new None (Some exampleAsset) None :: Buffer PsetOutput) = None"
proof -
  have 1: "ProprietaryData_fromKeyPair foreignPair =
     Inr \<lparr>pd_identifier = [0x61, 0x62, 0x63, 0x64], subType = 1, pd_keyData = [],
          pd_value = [1, 2, 3]\<rparr>"
    by code_simp
  have 2: "fromBuffer exampleDecodeBip32
      (readerOf [proprietaryPair ASSET exampleAsset, foreignPair]) =
     Inr (PsetOutput_new None (Some exampleAsset) None)"
    by code_simp
  from 1 2 show ?thesis
    by (simp add: foreignPair_def KeyPair_new_def Key_new_def magicPrefix_def PsetOutput_new_def)
qed

section \<open>Variable-length integers\<close>

lemma length_le_bytes [simp]: "length (le_bytes k n) = k"
  by (induction k arbitrary: n) simp_all

lemma le_nat_le_bytes: "le_nat (le_bytes k n) = n mod 256 ^ k"
proof (induction k arbitrary: n)
  case 0
  then show ?case by simp
next
  case (Suc k)
  have "unat (word_of_nat (n mod 256) :: 8 word) = n mod 256"
    by (simp add: unat_of_nat)
  then show ?case
    using Suc [of "n div 256"] by (simp add: mod_mult2_eq)
qed

lemma le_bytes_add: "le_bytes (a + b) n = le_bytes a n @ le_bytes b (n div 256 ^ a)"
  by (induction a arbitrary: n) (simp_all add: div_mult2_eq)

lemma readUIntLE_shift:
  "readUIntLE (pre @ v) (length pre + off) k = readUIntLE v off k"
  by (simp add: readUIntLE_def slice_def)

lemma readUIntLE_here:
  "length bs = k \<Longrightarrow> readUIntLE (bs @ rest) 0 k = Inr (le_nat bs)"
  by (simp add: readUIntLE_def slice_def)

lemma readUIntLE_at:
  "length bs = k \<Longrightarrow> readUIntLE (pre @ bs @ rest) (length pre) k = Inr (le_nat bs)"
  using readUIntLE_shift [of pre "bs @ rest" 0 k] by (simp add: readUIntLE_here)

lemma readUIntLE_beyond:
  "length pre \<le> i \<Longrightarrow> readUIntLE (pre @ v) i k = readUIntLE v (i - length pre) k"
  using readUIntLE_shift [of pre v "i - length pre" k] by simp

lemma varuint_decode_shift:
  "varuint_decode (pre @ v) (length pre + off) = varuint_decode v off"
  by (simp add: varuint_decode_def readUIntLE_beyond cong: sum.case_cong if_cong)

lemma length_varuint_encode: "length (varuint_encode n) = varuint_encodingLength n"
  by (simp add: varuint_encode_def varuint_encodingLength_def)

lemma varuint_encodingLength_pos: "0 < varuint_encodingLength n"
  by (simp add: varuint_encodingLength_def)

lemma varuint_decode_encode:
  assumes "n \<le> MAX_SAFE_INTEGER"
  shows "varuint_decode (varuint_encode n @ rest) 0 = Inr n"
proof -
  consider "n < 0xfd" | "0xfd \<le> n" "n \<le> 0xffff" | "0xffff < n" "n \<le> 0xffffffff"
    | "0xffffffff < n"
    by linarith
  then show ?thesis
  proof cases
    case 1
    then have "unat (word_of_nat n :: 8 word) = n"
      by (simp add: unat_of_nat)
    with 1 show ?thesis
      using readUIntLE_here [of "[word_of_nat n]" 1 rest]
      by (simp add: varuint_decode_def varuint_encode_def)
  next
    case 2
    have f: "readUIntLE (0xfd # le_bytes 2 n @ rest) 0 1 = Inr 0xfd"
      using readUIntLE_here [of "[0xfd]" 1 "le_bytes 2 n @ rest"] by simp
    have g: "readUIntLE (0xfd # le_bytes 2 n @ rest) 1 2 = Inr (n mod 256 ^ 2)"
      using readUIntLE_at [of "le_bytes 2 n" 2 "[0xfd]" rest] by (simp add: le_nat_le_bytes)
    from 2 have "n mod 256 ^ 2 = n" by simp
    with 2 f g show ?thesis
      by (simp add: varuint_decode_def varuint_encode_def)
  next
    case 3
    have f: "readUIntLE (0xfe # le_bytes 4 n @ rest) 0 1 = Inr 0xfe"
      using readUIntLE_here [of "[0xfe]" 1 "le_bytes 4 n @ rest"] by simp
    have g: "readUIntLE (0xfe # le_bytes 4 n @ rest) 1 4 = Inr (n mod 256 ^ 4)"
      using readUIntLE_at [of "le_bytes 4 n" 4 "[0xfe]" rest] by (simp add: le_nat_le_bytes)
    from 3 have "n mod 256 ^ 4 = n" by simp
    with 3 f g show ?thesis
      by (simp add: varuint_decode_def varuint_encode_def)
  next
    case 4
    have e: "le_bytes 8 n = le_bytes 4 n @ le_bytes 4 (n div 256 ^ 4)"
      using le_bytes_add [of 4 4 n] by simp
    have f: "readUIntLE (0xff # le_bytes 8 n @ rest) 0 1 = Inr 0xff"
      using readUIntLE_here [of "[0xff]" 1 "le_bytes 8 n @ rest"] by simp
    have g: "readUIntLE (0xff # le_bytes 8 n @ rest) 1 4 = Inr (n mod 256 ^ 4)"
      using readUIntLE_at [of "le_bytes 4 n" 4 "[0xff]" "le_bytes 4 (n div 256 ^ 4) @ rest"]
      by (simp add: le_nat_le_bytes e)
    have h: "readUIntLE (0xff # le_bytes 8 n @ rest) 5 4 = Inr (n div 256 ^ 4 mod 256 ^ 4)"
      using readUIntLE_at [of "le_bytes 4 (n div 256 ^ 4)" 4 "0xff # le_bytes 4 n" rest]
      by (simp add: le_nat_le_bytes e)
    from assms have "n div 256 ^ 4 < 256 ^ 4"
      by (simp add: MAX_SAFE_INTEGER_def)
    then have i: "n div 256 ^ 4 mod 256 ^ 4 = n div 256 ^ 4" by simp
    have j: "n div 256 ^ 4 * 0x100000000 + n mod 256 ^ 4 = n"
      by simp
    from 4 assms f g h i j show ?thesis
      by (simp add: varuint_decode_def varuint_encode_def)
  qed
qed

section \<open>The taproot tree loop\<close>

lemma slice_shift: "slice (pre @ v) (length pre + a) (length pre + b) = slice v a b"
  by (simp add: slice_def)

lemma slice_all: "slice (pre @ bs @ rest) (length pre) (length pre + length bs) = bs"
  by (simp add: slice_def)

lemma tapTree_loop_shift:
  "tapTree_loop (pre @ v) (length pre + off) (acc @ lvs) =
     (case tapTree_loop v off lvs of Inl e \<Rightarrow> Inl e | Inr ls \<Rightarrow> Inr (acc @ ls))"
proof (induction v off lvs rule: tapTree_loop.induct)
  case (1 v off lvs)
  have L: "tapTree_loop (pre @ v) (length pre + off) (acc @ lvs) =
     (if length pre + off < length (pre @ v) then
        (case varuint_decode (pre @ v) (length pre + off + 2) of
           Inl e \<Rightarrow> Inl e
         | Inr scriptLen \<Rightarrow>
             tapTree_loop (pre @ v)
               (length pre + off + 2 + varuint_encodingLength scriptLen + scriptLen)
               ((acc @ lvs) @ [\<lparr>depth = (pre @ v) ! (length pre + off),
                        leafVersion = (pre @ v) ! (length pre + off + 1),
                        leafScript = slice (pre @ v)
                          (length pre + off + 2 + varuint_encodingLength scriptLen)
                          (length pre + off + 2 + varuint_encodingLength scriptLen + scriptLen)\<rparr>]))
      else Inr (acc @ lvs))"
    by (rule tapTree_loop.simps)
  have R: "tapTree_loop v off lvs =
     (if off < length v then
        (case varuint_decode v (off + 2) of
           Inl e \<Rightarrow> Inl e
         | Inr scriptLen \<Rightarrow>
             tapTree_loop v (off + 2 + varuint_encodingLength scriptLen + scriptLen)
               (lvs @ [\<lparr>depth = v ! off, leafVersion = v ! (off + 1),
                        leafScript = slice v (off + 2 + varuint_encodingLength scriptLen)
                          (off + 2 + varuint_encodingLength scriptLen + scriptLen)\<rparr>]))
      else Inr lvs)"
    by (rule tapTree_loop.simps)
  have D: "varuint_decode (pre @ v) (length pre + off + 2) = varuint_decode v (off + 2)"
    using varuint_decode_shift [of pre v "off + 2"] by (simp add: add.assoc)
  show ?case
  proof (cases "off < length v")
    case False
    then show ?thesis by (simp add: L R)
  next
    case True
    show ?thesis
    proof (cases "varuint_decode v (off + 2)")
      case (Inl e)
      with True show ?thesis unfolding L R D by simp
    next
      case (Inr n)
      have S: "slice (pre @ v) (length pre + off + 2 + varuint_encodingLength n)
                 (length pre + off + 2 + varuint_encodingLength n + n) =
               slice v (off + 2 + varuint_encodingLength n) (off + 2 + varuint_encodingLength n + n)"
        using slice_shift [of pre v "off + 2 + varuint_encodingLength n"
            "off + 2 + varuint_encodingLength n + n"]
        by (simp add: add.assoc)
      have O: "length pre + off + 2 + varuint_encodingLength n + n =
               length pre + (off + 2 + varuint_encodingLength n + n)"
        by simp
      from True Inr show ?thesis
        unfolding L R D
        using "1.IH" [OF True Inr]
        by (simp only: slice_shift O nth_append_length_plus append_assoc if_True sum.case length_append
            add.assoc add_less_cancel_left)
    qed
  qed
qed


lemma length_encodeTapLeaf:
  "length (encodeTapLeaf l) = 2 + varuint_encodingLength (length (leafScript l)) + length (leafScript l)"
  by (simp add: encodeTapLeaf_def length_varuint_encode)

lemma tapTree_loop_end: "length v \<le> off \<Longrightarrow> tapTree_loop v off acc = Inr acc"
  by (simp add: tapTree_loop.simps [of v off acc])

lemma tapTree_loop_header:
  assumes "n \<le> MAX_SAFE_INTEGER"
  shows "tapTree_loop ([d, w] @ varuint_encode n @ rest) 0 acc =
     tapTree_loop ([d, w] @ varuint_encode n @ rest) (2 + varuint_encodingLength n + n)
       (acc @ [\<lparr>depth = d, leafVersion = w, leafScript = take n rest\<rparr>])"
proof -
  have D: "varuint_decode ([d, w] @ varuint_encode n @ rest) (0 + 2) = Inr n"
    using varuint_decode_shift [of "[d, w]" "varuint_encode n @ rest" 0]
      varuint_decode_encode [OF assms, of rest]
    by simp
  have S: "slice ([d, w] @ varuint_encode n @ rest) (0 + 2 + varuint_encodingLength n)
             (0 + 2 + varuint_encodingLength n + n) = take n rest"
    by (simp add: slice_def length_varuint_encode)
  show ?thesis
    by (subst tapTree_loop.simps) (simp add: D [simplified] S [simplified])
qed

lemma tapTree_loop_leaf:
  assumes "length (leafScript l) \<le> MAX_SAFE_INTEGER"
  shows "tapTree_loop (encodeTapLeaf l @ rest) 0 acc =
     (case tapTree_loop rest 0 [] of Inl e \<Rightarrow> Inl e | Inr ls \<Rightarrow> Inr (acc @ l # ls))"
proof -
  let ?n = "length (leafScript l)"
  have E: "encodeTapLeaf l @ rest =
     [depth l, leafVersion l] @ varuint_encode ?n @ (leafScript l @ rest)"
    by (simp add: encodeTapLeaf_def)
  have L: "\<lparr>depth = depth l, leafVersion = leafVersion l, leafScript = leafScript l\<rparr> = l"
    by simp
  have N: "length (encodeTapLeaf l) + 0 = 2 + varuint_encodingLength ?n + ?n"
    by (simp add: length_encodeTapLeaf)
  have "tapTree_loop (encodeTapLeaf l @ rest) 0 acc =
     tapTree_loop (encodeTapLeaf l @ rest) (length (encodeTapLeaf l) + 0) ((acc @ [l]) @ [])"
    unfolding N E using tapTree_loop_header [OF assms, of "depth l" "leafVersion l" "leafScript l @ rest" acc]
    by (simp add: L)
  then show ?thesis
    unfolding tapTree_loop_shift by (simp split: sum.split)
qed

lemma tapTree_loop_leaves:
  assumes "\<forall>l\<in>set ls. length (leafScript l) \<le> MAX_SAFE_INTEGER"
  shows "tapTree_loop (concat (map encodeTapLeaf ls) @ rest) 0 acc =
     (case tapTree_loop rest 0 [] of Inl e \<Rightarrow> Inl e | Inr ls' \<Rightarrow> Inr (acc @ ls @ ls'))"
  using assms
proof (induction ls arbitrary: acc)
  case Nil
  show ?case
    using tapTree_loop_shift [of "[]" rest 0 acc "[]"] by (simp split: sum.split)
next
  case (Cons l ls)
  then have b: "length (leafScript l) \<le> MAX_SAFE_INTEGER" by simp
  from Cons have ih: "tapTree_loop (concat (map encodeTapLeaf ls) @ rest) 0 [] =
     (case tapTree_loop rest 0 [] of Inl e \<Rightarrow> Inl e | Inr ls' \<Rightarrow> Inr ([] @ ls @ ls'))"
    by simp
  show ?case
    using tapTree_loop_leaf [OF b, of "concat (map encodeTapLeaf ls) @ rest" acc] ih
    by (simp split: sum.split)
qed


lemma tapTree_loop_truncated:
  assumes "n \<le> MAX_SAFE_INTEGER" and "length rest \<le> n"
  shows "tapTree_loop ([d, w] @ varuint_encode n @ rest) 0 acc =
     Inr (acc @ [\<lparr>depth = d, leafVersion = w, leafScript = rest\<rparr>])"
  using tapTree_loop_header [OF assms(1), of d w rest acc] assms(2)
  by (simp add: tapTree_loop_end length_varuint_encode)

lemma tapTree_loop_short:
  assumes "tail \<noteq> []" and "length tail \<le> 2"
  shows "tapTree_loop tail 0 acc = Inl RangeError"
proof -
  have "varuint_decode tail (0 + 2) = Inl RangeError"
    using assms by (simp add: varuint_decode_def readUIntLE_def)
  then show ?thesis
    using assms by (subst tapTree_loop.simps) (simp del: One_nat_def)
qed

section \<open>The encoder and the unknown pairs\<close>

lemma getKeyPairs_ignores_unknowns:
  "getKeyPairs enc (out\<lparr>unknowns := us\<rparr>) = getKeyPairs enc out"
  by (simp add: getKeyPairs_def Let_def)

lemma toBuffer_ignores_unknowns:
  "toBuffer write enc (out\<lparr>unknowns := us\<rparr>) = toBuffer write enc out"
  by (simp add: toBuffer_def getKeyPairs_ignores_unknowns)

text \<open>
  C4. The encoder does not write the unknown pairs: \<^verbatim>\<open>keyPairs.concat(this.unknowns || [])\<close>
  (line 539) returns a new array that is dropped, so \<^verbatim>\<open>getKeyPairs\<close> and \<^verbatim>\<open>toBuffer\<close> give
  the same result whatever \<open>unknowns\<close> holds. The record decoded from an asset and a pair
  of unknown key type 0x55 holds that pair in \<open>unknowns\<close>; its encoding is the amount, the
  script, the asset and the blinder index, and the unknown pair is not among them.
\<close>

theorem C4_unknowns_not_encoded:
  "fromBuffer exampleDecodeBip32 (readerOf [proprietaryPair ASSET exampleAsset, unknownPair]) =
     Inr ((PsetOutput_new None (Some exampleAsset) None)\<lparr>unknowns := Some [unknownPair]\<rparr>) \<and>
   getKeyPairs exampleEncodeBip32
     ((PsetOutput_new None (Some exampleAsset) None)\<lparr>unknowns := Some [unknownPair]\<rparr>) =
     [amountPair [0, 0, 0, 0, 0, 0, 0, 0], KeyPair_new (Key_new SCRIPT None) [],
      proprietaryPair ASSET exampleAsset, proprietaryPair BLINDER_INDEX [0, 0, 0, 0]] \<and>
   unknownPair \<notin> set (getKeyPairs exampleEncodeBip32
     ((PsetOutput_new None (Some exampleAsset) None)\<lparr>unknowns := Some [unknownPair]\<rparr>)) \<and>
   toBuffer write exampleEncodeBip32
     ((PsetOutput_new None (Some exampleAsset) None)\<lparr>unknowns := Some [unknownPair]\<rparr>) =
   toBuffer write exampleEncodeBip32 (PsetOutput_new None (Some exampleAsset) None)"
proof -
  have 1: "fromBuffer exampleDecodeBip32
      (readerOf [proprietaryPair ASSET exampleAsset, unknownPair]) =
     Inr ((PsetOutput_new None (Some exampleAsset) None)\<lparr>unknowns := Some [unknownPair]\<rparr>)"
    by code_simp
  have 2: "getKeyPairs exampleEncodeBip32
     ((PsetOutput_new None (Some exampleAsset) None)\<lparr>unknowns := Some [unknownPair]\<rparr>) =
     [amountPair [0, 0, 0, 0, 0, 0, 0, 0], KeyPair_new (Key_new SCRIPT None) [],
      proprietaryPair ASSET exampleAsset, proprietaryPair BLINDER_INDEX [0, 0, 0, 0]]"
    by code_simp
  have 3: "unknownPair \<notin> set [amountPair [0, 0, 0, 0, 0, 0, 0, 0],
      KeyPair_new (Key_new SCRIPT None) [],
      proprietaryPair ASSET exampleAsset, proprietaryPair BLINDER_INDEX [0, 0, 0, 0]]"
    by (simp add: unknownPair_def amountPair_def proprietaryPair_def KeyPair_new_def Key_new_def
        keyType_defs)
  from 1 2 3 show ?thesis
    by (simp add: toBuffer_ignores_unknowns)
qed

section \<open>The taproot tree\<close>

text \<open>
  C9, as amended. The taproot tree loop stops only when the value is exhausted: after the
  encoding of any leaves it goes on with the bytes that follow, and its result is theirs
  with the leaves in front. A final leaf whose declared script length \<open>n\<close> exceeds the
  bytes that remain is not an error: the leaf is produced with the remaining bytes as its
  script (\<^verbatim>\<open>slice\<close> clamps), here for the loop and for the decoding step of the TAP_TREE
  pair. The loop raises only where the script length itself cannot be read: when one or
  two bytes of a leaf remain, the result is a RangeError.
\<close>

theorem C9_taproot_tree_decoding:
  assumes "\<forall>l\<in>set ls. length (leafScript l) \<le> MAX_SAFE_INTEGER"
  shows "tapTree_loop (encodeTapTree \<lparr>leaves = ls\<rparr> @ tail) 0 [] =
           (case tapTree_loop tail 0 [] of Inl e \<Rightarrow> Inl e | Inr ls' \<Rightarrow> Inr (ls @ ls')) \<and>
         (n \<le> MAX_SAFE_INTEGER \<and> length rest < n \<longrightarrow>
            tapTree_loop (encodeTapTree \<lparr>leaves = ls\<rparr> @ [d, w] @ varuint_encode n @ rest) 0 [] =
              Inr (ls @ [\<lparr>depth = d, leafVersion = w, leafScript = rest\<rparr>])) \<and>
         (tail \<noteq> [] \<and> length tail \<le> 2 \<longrightarrow>
            tapTree_loop (encodeTapTree \<lparr>leaves = ls\<rparr> @ tail) 0 [] = Inl RangeError) \<and>
         (n \<le> MAX_SAFE_INTEGER \<and> length rest < n \<and> keyType (key kp) = TAP_TREE \<and>
          kp_value kp = encodeTapTree \<lparr>leaves = ls\<rparr> @ [d, w] @ varuint_encode n @ rest \<and>
          tapTree out = None \<longrightarrow>
            fromBuffer_step dec out kp =
              Inr (out\<lparr>tapTree :=
                Some \<lparr>leaves = ls @ [\<lparr>depth = d, leafVersion = w, leafScript = rest\<rparr>]\<rparr>\<rparr>))"
proof -
  have a: "\<And>tail. tapTree_loop (encodeTapTree \<lparr>leaves = ls\<rparr> @ tail) 0 [] =
           (case tapTree_loop tail 0 [] of Inl e \<Rightarrow> Inl e | Inr ls' \<Rightarrow> Inr (ls @ ls'))"
    using tapTree_loop_leaves [OF assms, where acc = "[]"]
    by (simp add: encodeTapTree_def cong: sum.case_cong)
  have b: "tapTree_loop (encodeTapTree \<lparr>leaves = ls\<rparr> @ [d, w] @ varuint_encode n @ rest) 0 [] =
              Inr (ls @ [\<lparr>depth = d, leafVersion = w, leafScript = rest\<rparr>])"
    if "n \<le> MAX_SAFE_INTEGER" and "length rest < n"
    using that tapTree_loop_truncated [of n rest d w "[]"]
    by (simp add: a)
  have c: "tapTree_loop (encodeTapTree \<lparr>leaves = ls\<rparr> @ tail) 0 [] = Inl RangeError"
    if "tail \<noteq> []" and "length tail \<le> 2"
    using that tapTree_loop_short [of tail "[]"] by (simp add: a)
  have d: "fromBuffer_step dec out kp =
      Inr (out\<lparr>tapTree :=
        Some \<lparr>leaves = ls @ [\<lparr>depth = d, leafVersion = w, leafScript = rest\<rparr>]\<rparr>\<rparr>)"
    if "n \<le> MAX_SAFE_INTEGER" and "length rest < n" and "keyType (key kp) = TAP_TREE"
      and "kp_value kp = encodeTapTree \<lparr>leaves = ls\<rparr> @ [d, w] @ varuint_encode n @ rest"
      and "tapTree out = None"
    using that b step_TAP_TREE [of kp dec out]
    by (simp add: assignField_def)
  from a b c d show ?thesis by blast
qed

theorem C9_taproot_tree_decoding_witness:
  "tapTree_loop ([1, 0xc0, 3, 1, 2, 3] @ [1, 0xc0] @ [5] @ [0xaa, 0xbb]) 0 [] =
     Inr [\<lparr>depth = 1, leafVersion = 0xc0, leafScript = [1, 2, 3]\<rparr>,
          \<lparr>depth = 1, leafVersion = 0xc0, leafScript = [0xaa, 0xbb]\<rparr>] \<and>
   tapTree_loop ([1, 0xc0, 3, 1, 2, 3] @ [1, 0xc0]) 0 [] = Inl RangeError \<and>
   fromBuffer_step exampleDecodeBip32 (PsetOutput_new None None None)
     (tapTreePair [1, 0xc0, 3, 1, 2, 3, 1, 0xc0, 5, 0xaa, 0xbb]) =
     Inr ((PsetOutput_new None None None)
       \<lparr>tapTree := Some \<lparr>leaves =
          [\<lparr>depth = 1, leafVersion = 0xc0, leafScript = [1, 2, 3]\<rparr>,
           \<lparr>depth = 1, leafVersion = 0xc0, leafScript = [0xaa, 0xbb]\<rparr>]\<rparr>\<rparr>)"
  using C9_taproot_tree_decoding
    [where ls = "[\<lparr>depth = 1, leafVersion = 0xc0, leafScript = [1, 2, 3]\<rparr>]"
       and tail = "[1, 0xc0]" and n = 5 and rest = "[0xaa, 0xbb]" and d = 1 and w = "0xc0"
       and kp = "tapTreePair [1, 0xc0, 3, 1, 2, 3, 1, 0xc0, 5, 0xaa, 0xbb]"
       and out = "PsetOutput_new None None None" and dec = exampleDecodeBip32,
       THEN conjunct2]
  by (simp add: encodeTapTree_def encodeTapLeaf_def varuint_encode_def MAX_SAFE_INTEGER_def
      tapTreePair_def KeyPair_new_def Key_new_def PsetOutput_new_def)

text \<open>
  The claim as stated fails on the TAP_TREE value 01 c0 05 aa bb: the script length read
  at offset 2 is 5, two bytes remain, and the decoding succeeds with a leaf whose script
  is those two bytes.
\<close>

theorem C9_truncated_leaf_counterexample:
  "varuint_decode [1, 0xc0, 5, 0xaa, 0xbb] 2 = Inr 5 \<and>
   length (drop 3 [1, 0xc0, 5, 0xaa, 0xbb :: byte]) = 2 \<and>
   fromBuffer exampleDecodeBip32
     (readerOf [proprietaryPair ASSET exampleAsset, tapTreePair [1, 0xc0, 5, 0xaa, 0xbb]]) =
   Inr ((PsetOutput_new None (Some exampleAsset) None)
     \<lparr>tapTree := Some \<lparr>leaves = [\<lparr>depth = 1, leafVersion = 0xc0,
                                       leafScript = [0xaa, 0xbb]\<rparr>]\<rparr>\<rparr>)"
proof -
  have 1: "varuint_decode [1, 0xc0, 5, 0xaa, 0xbb] 2 = Inr 5"
    by code_simp
  have 2: "fromBuffer exampleDecodeBip32
     (readerOf [proprietaryPair ASSET exampleAsset, tapTreePair [1, 0xc0, 5, 0xaa, 0xbb]]) =
   Inr ((PsetOutput_new None (Some exampleAsset) None)
     \<lparr>tapTree := Some \<lparr>leaves = [\<lparr>depth = 1, leafVersion = 0xc0,
                                       leafScript = [0xaa, 0xbb]\<rparr>]\<rparr>\<rparr>)"
    by code_simp
  from 1 2 show ?thesis by simp
qed

section \<open>The round trip of encoding and decoding\<close>

















lemma KeyPair_new_sel [simp]: "key (KeyPair_new k v) = k" "kp_value (KeyPair_new k v) = v"
  by (simp_all add: KeyPair_new_def)











end
